theory Spec2Isabelle
  imports Complex_Main
begin

section \<open>Data model (models/Service.js, models/Slot.js, models/Reservation.js)\<close>

text \<open>
  Document ids are the hexadecimal strings of Mongo ObjectIds; a \<open>Date\<close> is its
  \<open>getTime()\<close> value, the milliseconds since the epoch. The \<open>status\<close> fields are
  JavaScript strings: the schema's \<open>enum\<close> is checked when a document is created, the
  handlers compare with \<open>'free'\<close> and write \<open>'booked'\<close>, \<open>'paid'\<close>, \<open>'pending'\<close>.
\<close>

type_synonym oid = string
type_synonym date = int

text \<open>
  A JavaScript Number: a finite double, given by its exact value, or \<open>NaN\<close> or an
  infinity. A Number field of a document is held as the arithmetic of the handlers reads
  it: a field that is missing reads \<open>undefined\<close>, which \<open>*\<close> turns into \<open>NaN\<close>.
\<close>

datatype number = Finite rat | NaN | PosInfinity | NegInfinity

record service =
  title :: string
  description :: string
  duration :: number
  price :: number
  mentorEmail :: string

record slot =
  slot_serviceId :: "oid option"
  start :: date
  slot_end :: "date option"
  slot_status :: string

record reservation =
  serviceId :: oid
  slotId :: oid
  meetingLink :: "string option"
  firstName :: string
  lastName :: string
  phone :: string
  customerEmail :: string
  status :: string
  stripeSessionId :: "string option"
  createdAt :: date

text \<open>The update documents handed to \<open>findByIdAndUpdate\<close>: a field that is \<open>None\<close> is absent.\<close>

record reservation_update =
  set_status :: "string option"
  set_stripeSessionId :: "string option"
  set_meetingLink :: "string option"

record slot_update =
  set_slot_serviceId :: "oid option"
  set_start :: "date option"
  set_slot_end :: "date option"
  set_slot_status :: "string option"

definition apply_reservation_update :: "reservation_update \<Rightarrow> reservation \<Rightarrow> reservation" where
  "apply_reservation_update u r =
     r\<lparr>status := (case set_status u of None \<Rightarrow> status r | Some s \<Rightarrow> s),
       stripeSessionId := (case set_stripeSessionId u of None \<Rightarrow> stripeSessionId r | Some s \<Rightarrow> Some s),
       meetingLink := (case set_meetingLink u of None \<Rightarrow> meetingLink r | Some l \<Rightarrow> Some l)\<rparr>"

definition apply_slot_update :: "slot_update \<Rightarrow> slot \<Rightarrow> slot" where
  "apply_slot_update u s =
     s\<lparr>slot_serviceId := (case set_slot_serviceId u of None \<Rightarrow> slot_serviceId s | Some i \<Rightarrow> Some i),
       start := (case set_start u of None \<Rightarrow> start s | Some d \<Rightarrow> d),
       slot_end := (case set_slot_end u of None \<Rightarrow> slot_end s | Some d \<Rightarrow> Some d),
       slot_status := (case set_slot_status u of None \<Rightarrow> slot_status s | Some t \<Rightarrow> t)\<rparr>"


section \<open>External collaborators\<close>

text \<open>A thrown JavaScript error, with its message.\<close>

datatype exn = Error string

record session_metadata =
  md_reservationId :: "oid option"
  md_slotId :: "oid option"

text \<open>A Stripe checkout session, as far as the handlers read it.\<close>

record checkout_session =
  session_id :: string
  url :: "string option"
  payment_status :: string
  metadata :: session_metadata

record stripe_event =
  event_id :: string
  event_type :: string
  data_object :: checkout_session

text \<open>The argument of \<open>stripe.checkout.sessions.create\<close>.\<close>

record checkout_request =
  customer_email :: string
  currency :: string
  unit_amount :: number
  product_name :: string
  success_url :: string
  cancel_url :: string
  request_metadata :: session_metadata

text \<open>The \<open>event\<close> resource that \<open>createGoogleMeet\<close> inserts into the calendar.\<close>

record calendar_event =
  ev_summary :: string
  ev_start :: date
  ev_end :: date
  ev_requestId :: date
  ev_attendees :: "string list"

text \<open>
  The \<open>mailOptions\<close> of the confirmation mail. The fixed text of the subject and of the
  HTML template is not represented; the values interpolated into it are.
\<close>

record mail =
  mail_from_name :: string
  mail_from_user :: string
  mail_to :: string
  mail_name :: string
  mail_title :: string
  mail_dateStr :: string
  mail_link :: "string option"

text \<open>
  Every database operation, external request and \<open>console.error\<close> a handler performs is a
  \<open>call\<close>; the world records them in order.
\<close>

datatype call =
    ReservationFindByIdAndUpdate "oid option" reservation_update
  | ReservationFindByIdPopulate "oid option"
  | ReservationFindPopulate
  | ReservationFindByIdAndDelete oid
  | ReservationCreate oid reservation
  | SlotFindByIdAndUpdate "oid option" slot_update
  | SlotFindById "oid option"
  | SlotFind
  | SlotFindFree date date
  | SlotCreate oid slot
  | SlotFindByIdAndDelete oid
  | SlotAggregate
  | ServiceFindById "oid option"
  | CalendarEventsInsert calendar_event
  | SendMail mail
  | CheckoutSessionsCreate checkout_request
  | CheckoutSessionsRetrieve string
  | ConsoleError string

text \<open>
  What lies outside the repository: the Stripe, Google Calendar, SMTP and JWT libraries,
  the JavaScript runtime (clock, date parsing and printing, ObjectId generation, the
  IEEE 754 product \<open>number_times\<close> and sum \<open>number_plus\<close> of two Numbers), the
  process environment, and the failures of the database driver. \<open>db_fails c\<close> is the
  error the driver throws on the operation \<open>c\<close> (a lost connection, an id or a value that
  cannot be cast), if any.
\<close>

record env =
  constructEvent :: "string \<Rightarrow> string option \<Rightarrow> string option \<Rightarrow> exn + stripe_event"
  sessions_create :: "checkout_request \<Rightarrow> exn + checkout_session"
  sessions_retrieve :: "string \<Rightarrow> exn + checkout_session"
  events_insert :: "calendar_event \<Rightarrow> exn + string"
  transporter_sendMail :: "mail \<Rightarrow> exn option"
  jwt_sign :: "exn + string"
  jwt_verify :: "string \<Rightarrow> exn + string"
  db_fails :: "call \<Rightarrow> exn option"
  now :: date
  number_times :: "number \<Rightarrow> number \<Rightarrow> number"
  number_plus :: "number \<Rightarrow> number \<Rightarrow> number"
  ObjectId :: "nat \<Rightarrow> oid"
  parseDate :: "string \<Rightarrow> date option"
  toLocaleString :: "date \<Rightarrow> string"
  dateToString :: "date \<Rightarrow> string"
  STRIPE_WEBHOOK_SECRET :: "string option"
  ADMIN_USER :: "string option"
  ADMIN_PASS :: "string option"
  FRONTEND_URL :: string
  EMAIL_FROM_NAME :: string
  SMTP_USER :: string


section \<open>The world: the three collections and the trace of calls\<close>

record world =
  services :: "(oid \<times> service) list"
  slots :: "(oid \<times> slot) list"
  reservations :: "(oid \<times> reservation) list"
  id_counter :: nat
  trace :: "call list"

text \<open>
  An asynchronous computation takes the world and returns the new one, with either its
  value or the error it threw.
\<close>

type_synonym 'a io = "world \<Rightarrow> (exn + 'a) \<times> world"

definition ret :: "'a \<Rightarrow> 'a io" where
  "ret x w = (Inr x, w)"

definition throw :: "exn \<Rightarrow> 'a io" where
  "throw e w = (Inl e, w)"

definition await :: "'a io \<Rightarrow> ('a \<Rightarrow> 'b io) \<Rightarrow> 'b io" where
  "await m f w = (case m w of (Inl e, w') \<Rightarrow> (Inl e, w') | (Inr x, w') \<Rightarrow> f x w')"

definition try_catch :: "'a io \<Rightarrow> (exn \<Rightarrow> 'a io) \<Rightarrow> 'a io" where
  "try_catch m h w = (case m w of (Inl e, w') \<Rightarrow> h e w' | (Inr x, w') \<Rightarrow> (Inr x, w'))"

definition emit :: "call \<Rightarrow> unit io" where
  "emit c w = (Inr (), w\<lparr>trace := trace w @ [c]\<rparr>)"

definition console_error :: "string \<Rightarrow> unit io" where
  "console_error msg = emit (ConsoleError msg)"

text \<open>A database operation is recorded, then fails if the driver does, and runs otherwise.\<close>

definition db_call :: "env \<Rightarrow> call \<Rightarrow> 'a io \<Rightarrow> 'a io" where
  "db_call e c run = await (emit c) (\<lambda>_. case db_fails e c of Some err \<Rightarrow> throw err | None \<Rightarrow> run)"

fun update_by_id :: "oid \<Rightarrow> ('a \<Rightarrow> 'a) \<Rightarrow> (oid \<times> 'a) list \<Rightarrow> (oid \<times> 'a) list" where
  "update_by_id i f [] = []"
| "update_by_id i f ((k, v) # xs) =
     (if k = i then (k, f v) # xs else (k, v) # update_by_id i f xs)"

fun delete_by_id :: "oid \<Rightarrow> (oid \<times> 'a) list \<Rightarrow> (oid \<times> 'a) list" where
  "delete_by_id i [] = []"
| "delete_by_id i ((k, v) # xs) = (if k = i then xs else (k, v) # delete_by_id i xs)"

text \<open>
  Looking a document up by its id. An id that is \<open>undefined\<close> (\<open>None\<close>) is taken to
  match no document. \<open>findByIdAndUpdate\<close> changes the first document with the id and
  returns the updated document, or \<open>null\<close>; the handlers that call it without
  \<open>{ new: true }\<close> ignore what it returns.
\<close>

definition find_by_id :: "oid option \<Rightarrow> (oid \<times> 'a) list \<Rightarrow> 'a option" where
  "find_by_id i xs = (case i of None \<Rightarrow> None | Some k \<Rightarrow> map_of xs k)"

definition Reservation_findByIdAndUpdate ::
  "env \<Rightarrow> oid option \<Rightarrow> reservation_update \<Rightarrow> reservation option io" where
  "Reservation_findByIdAndUpdate e i u =
     db_call e (ReservationFindByIdAndUpdate i u)
       (\<lambda>w. case i of
              None \<Rightarrow> (Inr None, w)
            | Some k \<Rightarrow>
                (case map_of (reservations w) k of
                   None \<Rightarrow> (Inr None, w)
                 | Some r \<Rightarrow>
                     (Inr (Some (apply_reservation_update u r)),
                      w\<lparr>reservations :=
                          update_by_id k (apply_reservation_update u) (reservations w)\<rparr>)))"

definition Slot_findByIdAndUpdate ::
  "env \<Rightarrow> oid option \<Rightarrow> slot_update \<Rightarrow> slot option io" where
  "Slot_findByIdAndUpdate e i u =
     db_call e (SlotFindByIdAndUpdate i u)
       (\<lambda>w. case i of
              None \<Rightarrow> (Inr None, w)
            | Some k \<Rightarrow>
                (case map_of (slots w) k of
                   None \<Rightarrow> (Inr None, w)
                 | Some s \<Rightarrow>
                     (Inr (Some (apply_slot_update u s)),
                      w\<lparr>slots := update_by_id k (apply_slot_update u) (slots w)\<rparr>)))"

definition Slot_findById :: "env \<Rightarrow> oid option \<Rightarrow> slot option io" where
  "Slot_findById e i = db_call e (SlotFindById i) (\<lambda>w. (Inr (find_by_id i (slots w)), w))"

definition Service_findById :: "env \<Rightarrow> oid option \<Rightarrow> service option io" where
  "Service_findById e i = db_call e (ServiceFindById i) (\<lambda>w. (Inr (find_by_id i (services w)), w))"

text \<open>
  A reservation with its \<open>serviceId\<close> and \<open>slotId\<close> populated: each reference is replaced
  by the document it names, or by \<open>null\<close>.
\<close>

record populated =
  doc_id :: oid
  doc :: reservation
  populated_serviceId :: "service option"
  populated_slotId :: "slot option"

definition populate :: "world \<Rightarrow> oid \<times> reservation \<Rightarrow> populated" where
  "populate w kr =
     \<lparr>doc_id = fst kr, doc = snd kr,
      populated_serviceId = map_of (services w) (serviceId (snd kr)),
      populated_slotId = map_of (slots w) (slotId (snd kr))\<rparr>"

definition Reservation_findById_populate :: "env \<Rightarrow> oid option \<Rightarrow> populated option io" where
  "Reservation_findById_populate e i =
     db_call e (ReservationFindByIdPopulate i)
       (\<lambda>w. (Inr (case i of
                    None \<Rightarrow> None
                  | Some k \<Rightarrow> map_option (\<lambda>r. populate w (k, r)) (map_of (reservations w) k)), w))"

definition Reservation_find_populate :: "env \<Rightarrow> populated list io" where
  "Reservation_find_populate e =
     db_call e ReservationFindPopulate (\<lambda>w. (Inr (map (populate w) (reservations w)), w))"

definition Reservation_findByIdAndDelete :: "env \<Rightarrow> oid \<Rightarrow> unit io" where
  "Reservation_findByIdAndDelete e i =
     db_call e (ReservationFindByIdAndDelete i)
       (\<lambda>w. (Inr (), w\<lparr>reservations := delete_by_id i (reservations w)\<rparr>))"

text \<open>\<open>create\<close> gives the document a fresh ObjectId and appends it to its collection.\<close>

definition Reservation_create :: "env \<Rightarrow> reservation \<Rightarrow> (oid \<times> reservation) io" where
  "Reservation_create e r w =
     db_call e (ReservationCreate (ObjectId e (id_counter w)) r)
       (\<lambda>w'. (Inr (ObjectId e (id_counter w), r),
               w'\<lparr>reservations := reservations w' @ [(ObjectId e (id_counter w), r)],
                  id_counter := Suc (id_counter w)\<rparr>)) w"

definition Slot_create :: "env \<Rightarrow> slot \<Rightarrow> (oid \<times> slot) io" where
  "Slot_create e s w =
     db_call e (SlotCreate (ObjectId e (id_counter w)) s)
       (\<lambda>w'. (Inr (ObjectId e (id_counter w), s),
               w'\<lparr>slots := slots w' @ [(ObjectId e (id_counter w), s)],
                  id_counter := Suc (id_counter w)\<rparr>)) w"

definition Slot_find :: "env \<Rightarrow> (oid \<times> slot) list io" where
  "Slot_find e = db_call e SlotFind (\<lambda>w. (Inr (slots w), w))"

text \<open>\<open>Slot.find({ start: { $gte: a, $lte: b }, status: 'free' }).sort('start')\<close>\<close>

definition Slot_find_free_sorted :: "env \<Rightarrow> date \<Rightarrow> date \<Rightarrow> (oid \<times> slot) list io" where
  "Slot_find_free_sorted e a b =
     db_call e (SlotFindFree a b)
       (\<lambda>w. (Inr (sort_key (\<lambda>ks. start (snd ks))
                    (filter (\<lambda>ks. a \<le> start (snd ks) \<and> start (snd ks) \<le> b
                                  \<and> slot_status (snd ks) = ''free'') (slots w))), w))"

definition Slot_findByIdAndDelete :: "env \<Rightarrow> oid \<Rightarrow> unit io" where
  "Slot_findByIdAndDelete e i =
     db_call e (SlotFindByIdAndDelete i) (\<lambda>w. (Inr (), w\<lparr>slots := delete_by_id i (slots w)\<rparr>))"

text \<open>
  The pipeline of \<open>/api/slots/summary\<close>: \<open>$match\<close> the free slots, \<open>$group\<close> them by the
  day of \<open>start\<close> printed as \<open>%Y-%m-%d\<close>, counting. Groups come in the order of their
  first member.
\<close>

fun count_key :: "string \<Rightarrow> (string \<times> nat) list \<Rightarrow> (string \<times> nat) list" where
  "count_key k [] = [(k, 1)]"
| "count_key k ((k', n) # xs) =
     (if k' = k then (k', Suc n) # xs else (k', n) # count_key k xs)"

definition Slot_aggregate :: "env \<Rightarrow> (string \<times> nat) list io" where
  "Slot_aggregate e =
     db_call e SlotAggregate
       (\<lambda>w. (Inr (foldl (\<lambda>acc ks. count_key (dateToString e (start (snd ks))) acc) []
                    (filter (\<lambda>ks. slot_status (snd ks) = ''free'') (slots w))), w))"


section \<open>Requests and responses\<close>

datatype body =
    Text string
  | ErrorJson string
  | MessageJson string
  | ReceivedJson
  | StatusJson string
  | TokenJson string
  | CheckoutUrlJson "string option"
  | SlotJson "(oid \<times> slot) option"
  | SlotsJson "(oid \<times> slot) list"
  | ReservationsJson "populated list"
  | SummaryJson "(string \<times> nat) list"
  | ErrorPage string

record response =
  status_code :: nat
  body :: body

text \<open>\<open>res.json(x)\<close> answers with status 200; \<open>res.status(n).json({ error: msg })\<close> is \<open>json_error n msg\<close>.\<close>

definition json :: "body \<Rightarrow> response" where
  "json b = \<lparr>status_code = 200, body = b\<rparr>"

definition json_error :: "nat \<Rightarrow> string \<Rightarrow> response" where
  "json_error n msg = \<lparr>status_code = n, body = ErrorJson msg\<rparr>"

text \<open>
  A field of a JSON body or of the query string is a string or is missing. \<open>!x\<close> holds
  of a missing field and of the empty string. The accented letters of the handlers'
  messages are written without their accent.
\<close>

definition falsy :: "string option \<Rightarrow> bool" where
  "falsy x = (case x of None \<Rightarrow> True | Some s \<Rightarrow> s = [])"

definition value_of :: "string option \<Rightarrow> string" where
  "value_of x = (case x of None \<Rightarrow> [] | Some s \<Rightarrow> s)"

definition type_error :: exn where
  "type_error = Error ''TypeError''"


section \<open>createGoogleMeet\<close>

text \<open>
  \<open>new Date(x)\<close> for a Number \<open>x\<close>: the time value is \<open>x\<close> cut to an integer, and the
  Date is invalid (\<open>None\<close>) when \<open>x\<close> is not finite or lies beyond 8.64e15 milliseconds
  from the epoch. \<open>getTime()\<close> of a valid Date is its time value.
\<close>

definition new_Date :: "number \<Rightarrow> date option" where
  "new_Date x =
     (case x of
        Finite r \<Rightarrow>
          if \<bar>r\<bar> \<le> 8640000000000000 then Some (if 0 \<le> r then \<lfloor>r\<rfloor> else \<lceil>r\<rceil>) else None
      | NaN \<Rightarrow> None
      | PosInfinity \<Rightarrow> None
      | NegInfinity \<Rightarrow> None)"

definition getTime :: "date \<Rightarrow> number" where
  "getTime d = Finite (of_int d)"

text \<open>
  \<open>attendees\<close> is a list here, so the \<open>Array.isArray\<close> guard of the source passes.
  The end date is \<open>new Date(startDate.getTime() + durationMinutes * 60000)\<close>; its
  \<open>toISOString()\<close> throws a RangeError when it is invalid, before anything is sent to the
  calendar. The function returns the \<open>hangoutLink\<close> of the inserted event, or throws what
  the calendar throws.
\<close>

definition createGoogleMeet :: "env \<Rightarrow> date \<Rightarrow> number \<Rightarrow> string \<Rightarrow> string list \<Rightarrow> string io" where
  "createGoogleMeet e startDate durationMinutes summary attendees =
     (case new_Date (number_plus e (getTime startDate)
                       (number_times e durationMinutes (Finite 60000))) of
        None \<Rightarrow> throw (Error ''RangeError: Invalid time value'')
      | Some endDate \<Rightarrow>
          (let event = \<lparr>ev_summary = summary, ev_start = startDate, ev_end = endDate,
                        ev_requestId = now e, ev_attendees = attendees\<rparr>
           in await (emit (CalendarEventsInsert event))
                (\<lambda>_. case events_insert e event of
                       Inl err \<Rightarrow> throw err
                     | Inr hangoutLink \<Rightarrow> ret hangoutLink)))"


section \<open>POST /api/stripe/webhook\<close>

text \<open>
  Reading a property of \<open>null\<close> throws a TypeError: \<open>fullRes.customerEmail\<close>,
  \<open>fullRes.serviceId.title\<close>, \<open>fullRes.slotId.start\<close>.
\<close>

definition mailOptions :: "env \<Rightarrow> populated option \<Rightarrow> exn + mail" where
  "mailOptions e fullRes =
     (case fullRes of
        None \<Rightarrow> Inl type_error
      | Some p \<Rightarrow>
          (case populated_serviceId p of
             None \<Rightarrow> Inl type_error
           | Some sv \<Rightarrow>
               (case populated_slotId p of
                  None \<Rightarrow> Inl type_error
                | Some sl \<Rightarrow>
                    Inr \<lparr>mail_from_name = EMAIL_FROM_NAME e, mail_from_user = SMTP_USER e,
                         mail_to = customerEmail (doc p), mail_name = firstName (doc p),
                         mail_title = title sv, mail_dateStr = toLocaleString e (start sl),
                         mail_link = meetingLink (doc p)\<rparr>)))"

definition sendMail :: "env \<Rightarrow> mail \<Rightarrow> unit io" where
  "sendMail e m =
     await (emit (SendMail m))
       (\<lambda>_. case transporter_sendMail e m of Some err \<Rightarrow> throw err | None \<Rightarrow> ret ())"

text \<open>The body of \<open>if (event.type === 'checkout.session.completed')\<close>.\<close>

definition checkout_session_completed :: "env \<Rightarrow> checkout_session \<Rightarrow> unit io" where
  "checkout_session_completed e session =
     (let reservationId = md_reservationId (metadata session);
          slotId = md_slotId (metadata session)
      in
      await (Reservation_findByIdAndUpdate e reservationId
               \<lparr>set_status = Some ''paid'', set_stripeSessionId = Some (session_id session),
                set_meetingLink = None\<rparr>) (\<lambda>reservation.
      await (Slot_findByIdAndUpdate e slotId
               \<lparr>set_slot_serviceId = None, set_start = None, set_slot_end = None,
                set_slot_status = Some ''booked''\<rparr>) (\<lambda>_.
      await (Slot_findById e slotId) (\<lambda>slot.
      (case reservation of
         None \<Rightarrow> throw type_error
       | Some r \<Rightarrow>
      await (Service_findById e (Some (serviceId r))) (\<lambda>service.
      (case slot of
         None \<Rightarrow> throw type_error
       | Some s \<Rightarrow>
      (case service of
         None \<Rightarrow> throw type_error
       | Some sv \<Rightarrow>
      await (createGoogleMeet e (start s) (duration sv) (''Reserva: '' @ title sv)
               [customerEmail r, mentorEmail sv]) (\<lambda>meetLink.
      await (Reservation_findByIdAndUpdate e reservationId
               \<lparr>set_status = None, set_stripeSessionId = None,
                set_meetingLink = Some meetLink\<rparr>) (\<lambda>_.
      await (Reservation_findById_populate e reservationId) (\<lambda>fullRes.
      (case mailOptions e fullRes of
         Inl err \<Rightarrow> throw err
       | Inr m \<Rightarrow>
           try_catch (sendMail e m)
             (\<lambda>err. console_error ''Error enviando mail:'')))))))))))))"

text \<open>
  The handler. Its result \<open>Inr r\<close> is the response it wrote; \<open>Inl err\<close> is an error that
  left the asynchronous handler uncaught, no response having been written.
\<close>

definition post_stripe_webhook :: "env \<Rightarrow> string \<Rightarrow> string option \<Rightarrow> response io" where
  "post_stripe_webhook e raw_body stripe_signature =
     (case constructEvent e raw_body stripe_signature (STRIPE_WEBHOOK_SECRET e) of
        Inl (Error message) \<Rightarrow>
          await (console_error (''Error firma webhook: '' @ message))
            (\<lambda>_. ret \<lparr>status_code = 400, body = Text (''Webhook Error: '' @ message)\<rparr>)
      | Inr event \<Rightarrow>
          await (if event_type event = ''checkout.session.completed''
                 then checkout_session_completed e (data_object event)
                 else ret ())
            (\<lambda>_. ret (json ReceivedJson)))"


section \<open>POST /api/stripe/verify\<close>

definition post_stripe_verify_try :: "env \<Rightarrow> string option \<Rightarrow> response io" where
  "post_stripe_verify_try e sessionId =
     (if falsy sessionId then ret (json_error 400 ''Falta sessionId.'')
      else
        await (emit (CheckoutSessionsRetrieve (value_of sessionId)))
          (\<lambda>_. case sessions_retrieve e (value_of sessionId) of
                 Inl err \<Rightarrow> throw err
               | Inr session \<Rightarrow>
                   if payment_status session \<noteq> ''paid''
                   then ret (json_error 400 ''Pago no completado.'')
                   else ret (json (StatusJson ''paid''))))"

definition post_stripe_verify :: "env \<Rightarrow> string option \<Rightarrow> response io" where
  "post_stripe_verify e sessionId =
     try_catch (post_stripe_verify_try e sessionId)
       (\<lambda>err. await (console_error ''Error en /api/stripe/verify:'')
                 (\<lambda>_. ret (json_error 500 ''Error interno.'')))"


section \<open>POST /api/login and authAdmin\<close>

definition message :: "exn \<Rightarrow> string" where
  "message err = (case err of Error m \<Rightarrow> m)"

text \<open>
  The handler of \<open>/api/login\<close> is synchronous: an error it throws (\<open>jwt.sign\<close> may
  throw) is caught by the router and answered by the default error handler of Express,
  with status 500 and a page that shows the error.
\<close>

definition post_login_handler :: "env \<Rightarrow> string option \<Rightarrow> string option \<Rightarrow> response io" where
  "post_login_handler e username password =
     (if falsy username \<or> falsy password then ret (json_error 400 ''Faltan campos.'')
      else if username = ADMIN_USER e \<and> password = ADMIN_PASS e
      then (case jwt_sign e of Inl err \<Rightarrow> throw err | Inr token \<Rightarrow> ret (json (TokenJson token)))
      else ret (json_error 401 ''Credenciales invalidas.''))"

definition post_login :: "env \<Rightarrow> string option \<Rightarrow> string option \<Rightarrow> response io" where
  "post_login e username password =
     try_catch (post_login_handler e username password)
       (\<lambda>err. ret \<lparr>status_code = 500, body = ErrorPage (message err)\<rparr>)"

text \<open>
  \<open>authAdmin\<close> answers 401 itself or calls \<open>next()\<close>, which is \<open>None\<close> here.
  \<open>auth.split(' ')[1]\<close> is what follows \<open>'Bearer '\<close> up to the next space.
\<close>

definition authAdmin :: "env \<Rightarrow> string option \<Rightarrow> response option" where
  "authAdmin e authorization =
     (case authorization of
        None \<Rightarrow> Some (json_error 401 ''No autorizado.'')
      | Some auth \<Rightarrow>
          if take 7 auth \<noteq> ''Bearer '' then Some (json_error 401 ''No autorizado.'')
          else (case jwt_verify e (takeWhile (\<lambda>c. c \<noteq> CHR '' '') (drop 7 auth)) of
                  Inl err \<Rightarrow> Some (json_error 401 ''Token invalido o expirado.'')
                | Inr role \<Rightarrow>
                    if role \<noteq> ''admin'' then Some (json_error 401 ''Token invalido o expirado.'')
                    else None))"

text \<open>\<open>app.use('/api/admin', authAdmin)\<close>: every admin route runs behind \<open>authAdmin\<close>.\<close>

definition admin :: "env \<Rightarrow> string option \<Rightarrow> response io \<Rightarrow> response io" where
  "admin e authorization handler =
     (case authAdmin e authorization of Some r \<Rightarrow> ret r | None \<Rightarrow> handler)"


section \<open>Admin routes: reservations and slots\<close>

definition get_admin_reservations_try :: "env \<Rightarrow> response io" where
  "get_admin_reservations_try e =
     await (Reservation_find_populate e) (\<lambda>reservations. ret (json (ReservationsJson reservations)))"

definition get_admin_reservations :: "env \<Rightarrow> response io" where
  "get_admin_reservations e =
     try_catch (get_admin_reservations_try e)
       (\<lambda>err. await (console_error (message err))
                 (\<lambda>_. ret (json_error 500 ''Error fetching reservations.'')))"

definition delete_admin_reservation_try :: "env \<Rightarrow> oid \<Rightarrow> response io" where
  "delete_admin_reservation_try e reservationId =
     await (Reservation_findByIdAndDelete e reservationId)
       (\<lambda>_. ret (json (MessageJson ''Reserva eliminada.'')))"

definition delete_admin_reservation :: "env \<Rightarrow> oid \<Rightarrow> response io" where
  "delete_admin_reservation e reservationId =
     try_catch (delete_admin_reservation_try e reservationId)
       (\<lambda>err. await (console_error ''Error eliminando reserva (singular):'')
                 (\<lambda>_. ret (json_error 400 ''No se pudo eliminar la reserva.'')))"

definition get_admin_slots_try :: "env \<Rightarrow> response io" where
  "get_admin_slots_try e = await (Slot_find e) (\<lambda>slots. ret (json (SlotsJson slots)))"

definition get_admin_slots :: "env \<Rightarrow> response io" where
  "get_admin_slots e =
     try_catch (get_admin_slots_try e)
       (\<lambda>err. await (console_error (message err))
                 (\<lambda>_. ret (json_error 500 ''Error fetching slots.'')))"

text \<open>
  The body of \<open>POST /api/admin/slots\<close>. The handler reads \<open>start\<close> alone; \<open>Slot.create\<close>
  casts it to a \<open>Date\<close> and rejects the document when it is not one.
\<close>

record slot_body =
  sb_start :: "string option"
  sb_end :: "string option"
  sb_status :: "string option"
  sb_serviceId :: "string option"

definition post_admin_slots_try :: "env \<Rightarrow> slot_body \<Rightarrow> response io" where
  "post_admin_slots_try e b =
     (if falsy (sb_start b) then ret (json_error 400 ''Falta start.'')
      else
        (case parseDate e (value_of (sb_start b)) of
           None \<Rightarrow> throw (Error ''ValidationError'')
         | Some d \<Rightarrow>
             await (Slot_create e \<lparr>slot_serviceId = None, start = d, slot_end = None,
                                   slot_status = ''free''\<rparr>)
               (\<lambda>slot. ret \<lparr>status_code = 201, body = SlotJson (Some slot)\<rparr>)))"

definition post_admin_slots :: "env \<Rightarrow> slot_body \<Rightarrow> response io" where
  "post_admin_slots e b =
     try_catch (post_admin_slots_try e b)
       (\<lambda>err. await (console_error (message err))
                 (\<lambda>_. ret (json_error 400 ''Invalid slot data.'')))"

definition put_admin_slot_try :: "env \<Rightarrow> oid \<Rightarrow> slot_update \<Rightarrow> response io" where
  "put_admin_slot_try e slot_id b =
     await (Slot_findByIdAndUpdate e (Some slot_id) b)
       (\<lambda>slot. ret (json (SlotJson (map_option (\<lambda>s. (slot_id, s)) slot))))"

definition put_admin_slot :: "env \<Rightarrow> oid \<Rightarrow> slot_update \<Rightarrow> response io" where
  "put_admin_slot e slot_id b =
     try_catch (put_admin_slot_try e slot_id b)
       (\<lambda>err. await (console_error (message err))
                 (\<lambda>_. ret (json_error 400 ''Could not update slot.'')))"

definition delete_admin_slot_try :: "env \<Rightarrow> oid \<Rightarrow> response io" where
  "delete_admin_slot_try e slot_id =
     await (Slot_findByIdAndDelete e slot_id) (\<lambda>_. ret (json (MessageJson ''Slot deleted.'')))"

definition delete_admin_slot :: "env \<Rightarrow> oid \<Rightarrow> response io" where
  "delete_admin_slot e slot_id =
     try_catch (delete_admin_slot_try e slot_id)
       (\<lambda>err. await (console_error (message err))
                 (\<lambda>_. ret (json_error 400 ''Could not delete slot.'')))"


section \<open>Public slot queries\<close>

definition get_slots_summary_try :: "env \<Rightarrow> response io" where
  "get_slots_summary_try e = await (Slot_aggregate e) (\<lambda>summary. ret (json (SummaryJson summary)))"

definition get_slots_summary :: "env \<Rightarrow> response io" where
  "get_slots_summary e =
     try_catch (get_slots_summary_try e)
       (\<lambda>err. await (console_error (message err)) (\<lambda>_. ret (json_error 500 ''Error interno.'')))"

text \<open>
  \<open>new Date(s)\<close> is \<open>parseDate e s\<close>, \<open>None\<close> for an invalid date, which the query
  refuses to cast.
\<close>

definition get_slots_try :: "env \<Rightarrow> string \<Rightarrow> response io" where
  "get_slots_try e date =
     (case parseDate e (date @ ''T00:00:00'') of
        None \<Rightarrow> throw (Error ''CastError'')
      | Some range_start \<Rightarrow>
          (case parseDate e (date @ ''T23:59:59'') of
             None \<Rightarrow> throw (Error ''CastError'')
           | Some range_end \<Rightarrow>
               await (Slot_find_free_sorted e range_start range_end)
                 (\<lambda>slots. ret (json (SlotsJson slots)))))"

definition get_slots :: "env \<Rightarrow> string option \<Rightarrow> response io" where
  "get_slots e date =
     (if falsy date then ret (json_error 400 ''Falta parametro date'')
      else
        try_catch (get_slots_try e (value_of date))
          (\<lambda>err. await (console_error (message err)) (\<lambda>_. ret (json_error 500 ''Error interno.''))))"


section \<open>POST /api/reservations\<close>

record reservation_body =
  rb_serviceId :: "string option"
  rb_slotId :: "string option"
  rb_customerEmail :: "string option"
  rb_firstName :: "string option"
  rb_lastName :: "string option"
  rb_phone :: "string option"

text \<open>\<open>Promise.all\<close> of two queries: both are issued, and the first rejection is thrown.\<close>

definition promise_all2 :: "'a io \<Rightarrow> 'b io \<Rightarrow> ('a \<times> 'b) io" where
  "promise_all2 m1 m2 w =
     (case m1 w of
        (r1, w1) \<Rightarrow>
          (case m2 w1 of
             (r2, w2) \<Rightarrow>
               (case r1 of
                  Inl err \<Rightarrow> (Inl err, w2)
                | Inr x \<Rightarrow> (case r2 of Inl err \<Rightarrow> (Inl err, w2) | Inr y \<Rightarrow> (Inr (x, y), w2)))))"

text \<open>
  \<open>Math.round(x)\<close>: the integer nearest to the double \<open>x\<close>, the upper one of two at
  equal distance; \<open>NaN\<close> and the infinities are returned as they are.
\<close>

definition Math_round :: "number \<Rightarrow> number" where
  "Math_round x =
     (case x of
        Finite r \<Rightarrow> Finite (of_int \<lfloor>r + 1 / 2\<rfloor>)
      | NaN \<Rightarrow> NaN
      | PosInfinity \<Rightarrow> PosInfinity
      | NegInfinity \<Rightarrow> NegInfinity)"

definition checkout_request_for ::
  "env \<Rightarrow> string \<Rightarrow> service \<Rightarrow> oid \<Rightarrow> oid \<Rightarrow> checkout_request" where
  "checkout_request_for e email sv reservation_id slot_id =
     \<lparr>customer_email = email, currency = ''nzd'', unit_amount = Math_round (number_times e (price sv) (Finite 100)),
      product_name = title sv,
      success_url = FRONTEND_URL e @ ''/success?session_id={CHECKOUT_SESSION_ID}'',
      cancel_url = FRONTEND_URL e @ ''/cancel'',
      request_metadata = \<lparr>md_reservationId = Some reservation_id, md_slotId = Some slot_id\<rparr>\<rparr>"

definition checkout_sessions_create :: "env \<Rightarrow> checkout_request \<Rightarrow> checkout_session io" where
  "checkout_sessions_create e rq =
     await (emit (CheckoutSessionsCreate rq))
       (\<lambda>_. case sessions_create e rq of Inl err \<Rightarrow> throw err | Inr session \<Rightarrow> ret session)"

definition new_reservation :: "env \<Rightarrow> reservation_body \<Rightarrow> reservation" where
  "new_reservation e b =
     \<lparr>serviceId = value_of (rb_serviceId b), slotId = value_of (rb_slotId b),
      meetingLink = None, firstName = value_of (rb_firstName b),
      lastName = value_of (rb_lastName b), phone = value_of (rb_phone b),
      customerEmail = value_of (rb_customerEmail b), status = ''pending'',
      stripeSessionId = None, createdAt = now e\<rparr>"

definition post_reservations_try :: "env \<Rightarrow> reservation_body \<Rightarrow> response io" where
  "post_reservations_try e b =
     (if falsy (rb_serviceId b) \<or> falsy (rb_slotId b) \<or> falsy (rb_customerEmail b)
         \<or> falsy (rb_firstName b) \<or> falsy (rb_lastName b) \<or> falsy (rb_phone b)
      then ret (json_error 400 ''Faltan campos obligatorios.'')
      else
        await (promise_all2 (Service_findById e (rb_serviceId b)) (Slot_findById e (rb_slotId b)))
          (\<lambda>found.
             (case fst found of
                None \<Rightarrow> ret (json_error 400 ''Servicio o slot no disponible.'')
              | Some sv \<Rightarrow>
                  (case snd found of
                     None \<Rightarrow> ret (json_error 400 ''Servicio o slot no disponible.'')
                   | Some sl \<Rightarrow>
                       if slot_status sl \<noteq> ''free''
                       then ret (json_error 400 ''Servicio o slot no disponible.'')
                       else
                         await (Slot_findByIdAndUpdate e (rb_slotId b)
                                  \<lparr>set_slot_serviceId = None, set_start = None,
                                   set_slot_end = None, set_slot_status = Some ''booked''\<rparr>)
                           (\<lambda>_.
                         await (Reservation_create e (new_reservation e b))
                           (\<lambda>reservation.
                         await (checkout_sessions_create e
                                  (checkout_request_for e (value_of (rb_customerEmail b)) sv
                                     (fst reservation) (value_of (rb_slotId b))))
                           (\<lambda>session. ret (json (CheckoutUrlJson (url session))))))))))"

definition post_reservations :: "env \<Rightarrow> reservation_body \<Rightarrow> response io" where
  "post_reservations e b =
     try_catch (post_reservations_try e b)
       (\<lambda>err. await (console_error (message err)) (\<lambda>_. ret (json_error 500 ''Error interno.'')))"


section \<open>The application: its routes\<close>

text \<open>The admin requests carry their \<open>Authorization\<close> header first.\<close>

datatype request =
    PostStripeWebhook string "string option"
  | PostStripeVerify "string option"
  | PostLogin "string option" "string option"
  | GetAdminReservations "string option"
  | DeleteAdminReservation "string option" oid
  | GetAdminSlots "string option"
  | PostAdminSlots "string option" slot_body
  | PutAdminSlot "string option" oid slot_update
  | DeleteAdminSlot "string option" oid
  | GetSlotsSummary
  | GetSlots "string option"
  | PostReservations reservation_body

fun app :: "env \<Rightarrow> request \<Rightarrow> response io" where
  "app e (PostStripeWebhook raw_body stripe_signature) = post_stripe_webhook e raw_body stripe_signature"
| "app e (PostStripeVerify sessionId) = post_stripe_verify e sessionId"
| "app e (PostLogin username password) = post_login e username password"
| "app e (GetAdminReservations auth) = admin e auth (get_admin_reservations e)"
| "app e (DeleteAdminReservation auth reservationId) = admin e auth (delete_admin_reservation e reservationId)"
| "app e (GetAdminSlots auth) = admin e auth (get_admin_slots e)"
| "app e (PostAdminSlots auth b) = admin e auth (post_admin_slots e b)"
| "app e (PutAdminSlot auth slot_id b) = admin e auth (put_admin_slot e slot_id b)"
| "app e (DeleteAdminSlot auth slot_id) = admin e auth (delete_admin_slot e slot_id)"
| "app e GetSlotsSummary = get_slots_summary e"
| "app e (GetSlots date) = get_slots e date"
| "app e (PostReservations b) = post_reservations e b"

fun is_admin_route :: "request \<Rightarrow> bool" where
  "is_admin_route (GetAdminReservations auth) = True"
| "is_admin_route (DeleteAdminReservation auth reservationId) = True"
| "is_admin_route (GetAdminSlots auth) = True"
| "is_admin_route (PostAdminSlots auth b) = True"
| "is_admin_route (PutAdminSlot auth slot_id b) = True"
| "is_admin_route (DeleteAdminSlot auth slot_id) = True"
| "is_admin_route rq = False"


section \<open>The property that a slot is booked\<close>

text \<open>
  \<open>booked_at i w\<close>: the slot with id \<open>i\<close> is stored in \<open>w\<close> with status \<open>booked\<close>.
  \<open>keeps_booked i m\<close>: running \<open>m\<close> leaves every such slot booked.
\<close>

definition booked_at :: "oid \<Rightarrow> world \<Rightarrow> bool" where
  "booked_at i w = (case map_of (slots w) i of None \<Rightarrow> False | Some s \<Rightarrow> slot_status s = ''booked'')"

definition keeps_booked :: "oid \<Rightarrow> 'a io \<Rightarrow> bool" where
  "keeps_booked i m = (\<forall>w. booked_at i w \<longrightarrow> booked_at i (snd (m w)))"


section \<open>A concrete deployment, for evaluating the handlers\<close>

text \<open>
  One service, three slots on 2024-01-01 (UTC) and a pending reservation of the third
  slot. \<open>1704067200000\<close> is 2024-01-01T00:00:00.000Z; the second slot starts at
  23:59:59.500 of that day.
\<close>

definition example_service :: service where
  "example_service =
     \<lparr>title = ''Mentoria'', description = ''Sesion individual'', duration = Finite 60,
      price = Finite 120, mentorEmail = ''mentor@example.com''\<rparr>"

definition example_reservation :: reservation where
  "example_reservation =
     \<lparr>serviceId = ''svc1'', slotId = ''slot3'', meetingLink = None, firstName = ''Ana'',
      lastName = ''Perez'', phone = ''099123456'', customerEmail = ''ana@example.com'',
      status = ''pending'', stripeSessionId = None, createdAt = 1704000000000\<rparr>"

definition example_slot3 :: slot where
  "example_slot3 =
     \<lparr>slot_serviceId = None, start = 1704099600000, slot_end = None, slot_status = ''booked''\<rparr>"

definition example_world :: world where
  "example_world =
     \<lparr>services = [(''svc1'', example_service)],
      slots =
        [(''slot1'', \<lparr>slot_serviceId = None, start = 1704103200000, slot_end = None,
                      slot_status = ''free''\<rparr>),
         (''slot2'', \<lparr>slot_serviceId = None, start = 1704153599500, slot_end = None,
                      slot_status = ''free''\<rparr>),
         (''slot3'', example_slot3)],
      reservations = [(''res1'', example_reservation)],
      id_counter = 0,
      trace = []\<rparr>"

definition example_session :: checkout_session where
  "example_session =
     \<lparr>session_id = ''cs_test_1'', url = Some ''https://checkout.example/cs_test_1'',
      payment_status = ''paid'',
      metadata = \<lparr>md_reservationId = Some ''res1'', md_slotId = Some ''slot3''\<rparr>\<rparr>"

definition example_event :: stripe_event where
  "example_event =
     \<lparr>event_id = ''evt_1'', event_type = ''checkout.session.completed'',
      data_object = example_session\<rparr>"

text \<open>
  A toy environment in which every collaborator answers: the signature \<open>''good''\<close>
  verifies and the raw body is read as the event's type; no database operation fails.
  Its product and sum of two finite Numbers are the exact ones, which is what IEEE 754
  gives on the integers used here.
\<close>

definition example_env :: env where
  "example_env =
     \<lparr>constructEvent =
        (\<lambda>raw_body signature secret.
           if signature = Some ''good''
           then Inr \<lparr>event_id = ''evt_1'', event_type = raw_body, data_object = example_session\<rparr>
           else Inl (Error ''No signatures found matching the expected signature for payload'')),
      sessions_create =
        (\<lambda>rq. Inr \<lparr>session_id = ''cs_test_2'', url = Some ''https://checkout.example/cs_test_2'',
                     payment_status = ''unpaid'', metadata = request_metadata rq\<rparr>),
      sessions_retrieve = (\<lambda>i. Inr example_session),
      events_insert = (\<lambda>ev. Inr ''https://meet.example/abc-defg-hij''),
      transporter_sendMail = (\<lambda>m. None),
      jwt_sign = Inr ''token'',
      jwt_verify = (\<lambda>t. if t = ''token'' then Inr ''admin'' else Inl (Error ''jwt malformed'')),
      db_fails = (\<lambda>c. None),
      now = 1704050000000,
      number_times =
        (\<lambda>x y. case x of
                 Finite a \<Rightarrow> (case y of Finite b \<Rightarrow> Finite (a * b) | _ \<Rightarrow> NaN)
               | _ \<Rightarrow> NaN),
      number_plus =
        (\<lambda>x y. case x of
                 Finite a \<Rightarrow> (case y of Finite b \<Rightarrow> Finite (a + b) | _ \<Rightarrow> NaN)
               | _ \<Rightarrow> NaN),
      ObjectId = (\<lambda>n. ''new'' @ replicate n CHR ''1''),
      parseDate =
        (\<lambda>s. if s = ''2024-01-01T00:00:00'' then Some 1704067200000
             else if s = ''2024-01-01T23:59:59'' then Some 1704153599000
             else if s = ''2024-01-02T10:00:00Z'' then Some 1704189600000
             else None),
      toLocaleString = (\<lambda>d. ''lunes, 1 de enero de 2024, 09:00''),
      dateToString = (\<lambda>d. ''2024-01-01''),
      STRIPE_WEBHOOK_SECRET = Some ''whsec_test'',
      ADMIN_USER = Some ''admin'',
      ADMIN_PASS = Some ''secret'',
      FRONTEND_URL = ''https://front.example'',
      EMAIL_FROM_NAME = ''Reservas'',
      SMTP_USER = ''reservas@example.com''\<rparr>"

text \<open>The same environment with the calendar, the mail server or the database down.\<close>

definition calendar_down_env :: env where
  "calendar_down_env = example_env\<lparr>events_insert := (\<lambda>ev. Inl (Error ''Calendar API unavailable''))\<rparr>"

definition smtp_down_env :: env where
  "smtp_down_env = example_env\<lparr>transporter_sendMail := (\<lambda>m. Some (Error ''SMTP connection refused''))\<rparr>"


text \<open>
  The same environment with ObjectId casting: \<open>Service.findById\<close> rejects with a
  CastError for the id \<open>''not-an-object-id''\<close>, which is not the hexadecimal string of an
  ObjectId.
\<close>

definition cast_error_env :: env where
  "cast_error_env =
     example_env\<lparr>db_fails :=
       (\<lambda>c. if c = ServiceFindById (Some ''not-an-object-id'')
            then Some (Error ''CastError: Cast to ObjectId failed'')
            else None)\<rparr>"

definition example_reservation_body :: reservation_body where
  "example_reservation_body =
     \<lparr>rb_serviceId = Some ''svc1'', rb_slotId = Some ''slot1'',
      rb_customerEmail = Some ''luis@example.com'', rb_firstName = Some ''Luis'',
      rb_lastName = Some ''Gomez'', rb_phone = Some ''098765432''\<rparr>"


section \<open>Proof tools\<close>

lemmas io_defs = ret_def throw_def await_def try_catch_def emit_def console_error_def db_call_def

lemmas db_defs = Reservation_findByIdAndUpdate_def Slot_findByIdAndUpdate_def Slot_findById_def
  Service_findById_def Reservation_findById_populate_def Reservation_find_populate_def
  Reservation_findByIdAndDelete_def Reservation_create_def Slot_create_def Slot_find_def
  Slot_find_free_sorted_def Slot_findByIdAndDelete_def Slot_aggregate_def

lemmas example_defs = example_env_def example_world_def example_event_def example_session_def
  example_reservation_def example_service_def example_slot3_def

lemmas handler_defs = post_stripe_webhook_def checkout_session_completed_def createGoogleMeet_def
  mailOptions_def sendMail_def populate_def find_by_id_def json_def json_error_def
  apply_reservation_update_def apply_slot_update_def
  new_Date_def getTime_def

lemma map_of_update_by_id:
  "map_of (update_by_id i f xs) k = (if k = i then map_option f (map_of xs i) else map_of xs k)"
  by (induction xs) auto


section \<open>The payment webhook\<close>

text \<open>
  Claim C1. A webhook request whose signature verifies, whose event has the type
  \<open>checkout.session.completed\<close> and whose session metadata carries the id of a stored
  reservation and of a stored slot runs these steps in this order, the service of the
  reservation being stored, the database answering, the end of the meeting being a valid
  date and the calendar returning a link:
  the reservation becomes \<open>paid\<close> and records the id of the payment session; the slot
  becomes \<open>booked\<close>; the slot and the service are fetched; a meeting is requested that
  starts at the slot's start, lasts the service's duration and invites the customer and
  the mentor; the link returned is stored on the reservation; the populated reservation is
  fetched and the confirmation mail is sent to the customer. The handler answers
  \<open>{received: true}\<close>. The trace ends with the mail, or with the log of its failure.
\<close>

theorem webhook_checkout_completed_steps:
  assumes sig: "constructEvent e raw_body sig (STRIPE_WEBHOOK_SECRET e) = Inr event"
    and ty: "event_type event = ''checkout.session.completed''"
    and md: "metadata (data_object event) = \<lparr>md_reservationId = Some rid, md_slotId = Some sid\<rparr>"
    and res: "map_of (reservations w) rid = Some r"
    and slot: "map_of (slots w) sid = Some s"
    and svc: "map_of (services w) (serviceId r) = Some sv"
    and rslot: "map_of (slots w) (slotId r) = Some rs"
    and db: "\<forall>c. db_fails e c = None"
    and endDate: "new_Date (number_plus e (getTime (start s))
                              (number_times e (duration sv) (Finite 60000))) = Some endDate"
    and ev: "ev = \<lparr>ev_summary = ''Reserva: '' @ title sv, ev_start = start s,
                    ev_end = endDate, ev_requestId = now e,
                    ev_attendees = [customerEmail r, mentorEmail sv]\<rparr>"
    and meet: "events_insert e ev = Inr link"
    and m: "m = \<lparr>mail_from_name = EMAIL_FROM_NAME e, mail_from_user = SMTP_USER e,
                  mail_to = customerEmail r, mail_name = firstName r, mail_title = title sv,
                  mail_dateStr = toLocaleString e (start rs), mail_link = Some link\<rparr>"
  shows "case post_stripe_webhook e raw_body sig w of
           (res, w') \<Rightarrow>
             res = Inr (json ReceivedJson)
             \<and> map_of (reservations w') rid =
                 Some (r\<lparr>status := ''paid'',
                         stripeSessionId := Some (session_id (data_object event)),
                         meetingLink := Some link\<rparr>)
             \<and> map_of (slots w') sid = Some (s\<lparr>slot_status := ''booked''\<rparr>)
             \<and> trace w' =
                 trace w @
                 [ReservationFindByIdAndUpdate (Some rid)
                    \<lparr>set_status = Some ''paid'',
                     set_stripeSessionId = Some (session_id (data_object event)),
                     set_meetingLink = None\<rparr>,
                  SlotFindByIdAndUpdate (Some sid)
                    \<lparr>set_slot_serviceId = None, set_start = None, set_slot_end = None,
                     set_slot_status = Some ''booked''\<rparr>,
                  SlotFindById (Some sid),
                  ServiceFindById (Some (serviceId r)),
                  CalendarEventsInsert ev,
                  ReservationFindByIdAndUpdate (Some rid)
                    \<lparr>set_status = None, set_stripeSessionId = None,
                     set_meetingLink = Some link\<rparr>,
                  ReservationFindByIdPopulate (Some rid),
                  SendMail m] @
                 (case transporter_sendMail e m of
                    None \<Rightarrow> []
                  | Some err \<Rightarrow> [ConsoleError ''Error enviando mail:''])"
proof -
  have rs: "slotId r = sid \<Longrightarrow> rs = s"
    using slot rslot by simp
  show ?thesis
    using assms rs
    by (simp add: post_stripe_webhook_def checkout_session_completed_def io_defs
        Reservation_findByIdAndUpdate_def Slot_findByIdAndUpdate_def Slot_findById_def
        Service_findById_def Reservation_findById_populate_def createGoogleMeet_def
        mailOptions_def sendMail_def populate_def find_by_id_def json_def
        apply_reservation_update_def apply_slot_update_def map_of_update_by_id Let_def
        split: option.splits)
qed

theorem webhook_checkout_completed_steps_witness:
  "constructEvent example_env ''checkout.session.completed'' (Some ''good'')
       (STRIPE_WEBHOOK_SECRET example_env) = Inr example_event
   \<and> (case post_stripe_webhook example_env ''checkout.session.completed'' (Some ''good'') example_world of
        (res, w') \<Rightarrow>
          res = Inr (json ReceivedJson)
          \<and> map_of (reservations w') ''res1'' =
              Some (example_reservation\<lparr>status := ''paid'', stripeSessionId := Some ''cs_test_1'',
                      meetingLink := Some ''https://meet.example/abc-defg-hij''\<rparr>)
          \<and> map_of (slots w') ''slot3'' = Some example_slot3
          \<and> length (trace w') = 8)"
  using webhook_checkout_completed_steps [where e = example_env
      and raw_body = "''checkout.session.completed''" and sig = "Some ''good''"
      and event = example_event and rid = "''res1''" and sid = "''slot3''"
      and w = example_world and r = example_reservation and s = example_slot3
      and sv = example_service and rs = example_slot3 and endDate = 1704103200000
      and ev = "\<lparr>ev_summary = ''Reserva: Mentoria'', ev_start = 1704099600000,
                 ev_end = 1704103200000, ev_requestId = 1704050000000,
                 ev_attendees = [''ana@example.com'', ''mentor@example.com'']\<rparr>"
      and link = "''https://meet.example/abc-defg-hij''"
      and m = "\<lparr>mail_from_name = ''Reservas'', mail_from_user = ''reservas@example.com'',
                mail_to = ''ana@example.com'', mail_name = ''Ana'', mail_title = ''Mentoria'',
                mail_dateStr = ''lunes, 1 de enero de 2024, 09:00'',
                mail_link = Some ''https://meet.example/abc-defg-hij''\<rparr>"]
  by (simp add: example_defs new_Date_def getTime_def split: prod.splits)

text \<open>
  Claim C2. A webhook request whose signature does not verify against the configured
  signing secret is answered with status 400, and every reservation and every slot (and
  every service) is left as it was: the handler only logs the error.
\<close>

theorem webhook_invalid_signature:
  assumes "constructEvent e raw_body sig (STRIPE_WEBHOOK_SECRET e) = Inl err"
  shows "case post_stripe_webhook e raw_body sig w of
           (res, w') \<Rightarrow>
             res = Inr \<lparr>status_code = 400, body = Text (''Webhook Error: '' @ message err)\<rparr>
             \<and> reservations w' = reservations w \<and> slots w' = slots w
             \<and> services w' = services w
             \<and> trace w' = trace w @ [ConsoleError (''Error firma webhook: '' @ message err)]"
  using assms by (cases err) (simp add: post_stripe_webhook_def io_defs message_def)

theorem webhook_invalid_signature_witness:
  "constructEvent example_env ''checkout.session.completed'' (Some ''forged'')
       (STRIPE_WEBHOOK_SECRET example_env)
     = Inl (Error ''No signatures found matching the expected signature for payload'')
   \<and> (case post_stripe_webhook example_env ''checkout.session.completed'' (Some ''forged'') example_world of
        (res, w') \<Rightarrow>
          res = Inr \<lparr>status_code = 400,
                     body = Text ''Webhook Error: No signatures found matching the expected signature for payload''\<rparr>
          \<and> reservations w' = reservations example_world \<and> slots w' = slots example_world)"
  using webhook_invalid_signature [where e = example_env
      and raw_body = "''checkout.session.completed''" and sig = "Some ''forged''"
      and err = "Error ''No signatures found matching the expected signature for payload''"
      and w = example_world]
  by (simp add: example_env_def message_def split: prod.splits)

text \<open>
  Claim C10. A webhook request whose signature verifies and whose event has another type
  than \<open>checkout.session.completed\<close> is answered with \<open>{received: true}\<close>, and the
  world is left as it was: no reservation and no slot changes, and nothing is called.
\<close>

theorem webhook_other_event:
  assumes "constructEvent e raw_body sig (STRIPE_WEBHOOK_SECRET e) = Inr event"
    and "event_type event \<noteq> ''checkout.session.completed''"
  shows "post_stripe_webhook e raw_body sig w = (Inr (json ReceivedJson), w)"
  using assms by (simp add: post_stripe_webhook_def io_defs)

theorem webhook_other_event_witness:
  "constructEvent example_env ''payment_intent.created'' (Some ''good'')
       (STRIPE_WEBHOOK_SECRET example_env)
     = Inr \<lparr>event_id = ''evt_1'', event_type = ''payment_intent.created'',
            data_object = example_session\<rparr>
   \<and> post_stripe_webhook example_env ''payment_intent.created'' (Some ''good'') example_world
       = (Inr \<lparr>status_code = 200, body = ReceivedJson\<rparr>, example_world)"
  using webhook_other_event [where e = example_env and raw_body = "''payment_intent.created''"
      and sig = "Some ''good''" and w = example_world
      and event = "\<lparr>event_id = ''evt_1'', event_type = ''payment_intent.created'',
                     data_object = example_session\<rparr>"]
  by (simp add: example_env_def json_def)

lemma webhook_mail_failure_logged:
  "transporter_sendMail smtp_down_env m = Some (Error ''SMTP connection refused'')
   \<and> fst (post_stripe_webhook smtp_down_env ''checkout.session.completed'' (Some ''good'') example_world)
       = Inr \<lparr>status_code = 200, body = ReceivedJson\<rparr>
   \<and> map_of (reservations (snd (post_stripe_webhook smtp_down_env ''checkout.session.completed''
         (Some ''good'') example_world))) ''res1''
       = Some (example_reservation\<lparr>status := ''paid'', stripeSessionId := Some ''cs_test_1'',
                 meetingLink := Some ''https://meet.example/abc-defg-hij''\<rparr>)
   \<and> last (trace (snd (post_stripe_webhook smtp_down_env ''checkout.session.completed''
         (Some ''good'') example_world)))
       = ConsoleError ''Error enviando mail:''"
  by (simp add: smtp_down_env_def example_defs handler_defs io_defs db_defs Let_def)

lemma webhook_invalid_end_date:
  assumes sig: "constructEvent e raw_body sig (STRIPE_WEBHOOK_SECRET e) = Inr event"
    and ty: "event_type event = ''checkout.session.completed''"
    and md: "metadata (data_object event) = \<lparr>md_reservationId = Some rid, md_slotId = Some sid\<rparr>"
    and res: "map_of (reservations w) rid = Some r"
    and slot: "map_of (slots w) sid = Some s"
    and svc: "map_of (services w) (serviceId r) = Some sv"
    and db: "\<forall>c. db_fails e c = None"
    and endDate: "new_Date (number_plus e (getTime (start s))
                              (number_times e (duration sv) (Finite 60000))) = None"
  shows "case post_stripe_webhook e raw_body sig w of
           (res, w') \<Rightarrow>
             res = Inl (Error ''RangeError: Invalid time value'')
             \<and> trace w' =
                 trace w @
                 [ReservationFindByIdAndUpdate (Some rid)
                    \<lparr>set_status = Some ''paid'',
                     set_stripeSessionId = Some (session_id (data_object event)),
                     set_meetingLink = None\<rparr>,
                  SlotFindByIdAndUpdate (Some sid)
                    \<lparr>set_slot_serviceId = None, set_start = None, set_slot_end = None,
                     set_slot_status = Some ''booked''\<rparr>,
                  SlotFindById (Some sid),
                  ServiceFindById (Some (serviceId r))]"
  using assms
  by (simp add: post_stripe_webhook_def checkout_session_completed_def createGoogleMeet_def
      find_by_id_def apply_reservation_update_def apply_slot_update_def io_defs db_defs
      map_of_update_by_id Let_def)

lemma webhook_meeting_failure_general:
  assumes sig: "constructEvent e raw_body sig (STRIPE_WEBHOOK_SECRET e) = Inr event"
    and ty: "event_type event = ''checkout.session.completed''"
    and md: "metadata (data_object event) = \<lparr>md_reservationId = Some rid, md_slotId = Some sid\<rparr>"
    and res: "map_of (reservations w) rid = Some r"
    and slot: "map_of (slots w) sid = Some s"
    and svc: "map_of (services w) (serviceId r) = Some sv"
    and db: "\<forall>c. db_fails e c = None"
    and endDate: "new_Date (number_plus e (getTime (start s))
                              (number_times e (duration sv) (Finite 60000))) = Some endDate"
    and ev: "ev = \<lparr>ev_summary = ''Reserva: '' @ title sv, ev_start = start s,
                    ev_end = endDate, ev_requestId = now e,
                    ev_attendees = [customerEmail r, mentorEmail sv]\<rparr>"
    and meet: "events_insert e ev = Inl err"
  shows "case post_stripe_webhook e raw_body sig w of
           (res, w') \<Rightarrow>
             res = Inl err
             \<and> map_of (reservations w') rid =
                 Some (r\<lparr>status := ''paid'',
                         stripeSessionId := Some (session_id (data_object event))\<rparr>)
             \<and> map_of (slots w') sid = Some (s\<lparr>slot_status := ''booked''\<rparr>)
             \<and> trace w' =
                 trace w @
                 [ReservationFindByIdAndUpdate (Some rid)
                    \<lparr>set_status = Some ''paid'',
                     set_stripeSessionId = Some (session_id (data_object event)),
                     set_meetingLink = None\<rparr>,
                  SlotFindByIdAndUpdate (Some sid)
                    \<lparr>set_slot_serviceId = None, set_start = None, set_slot_end = None,
                     set_slot_status = Some ''booked''\<rparr>,
                  SlotFindById (Some sid),
                  ServiceFindById (Some (serviceId r)),
                  CalendarEventsInsert ev]"
  using assms
  by (simp add: handler_defs io_defs db_defs map_of_update_by_id Let_def)

text \<open>
  Claim C6, at a request the code fails on. The calendar refuses the meeting of a paid
  checkout whose reservation, slot and service are stored. The error leaves the handler
  uncaught: no response is written, nothing is logged, the link is not stored and no mail
  is sent (in general: \<open>webhook_meeting_failure_general\<close>). The reservation stays
  \<open>paid\<close> with the session id, and nothing is rolled back.
  A mail that fails is caught and logged, and the handler answers
  (\<open>webhook_mail_failure_logged\<close>).
\<close>

theorem webhook_meeting_failure_uncaught:
  "events_insert calendar_down_env ev = Inl (Error ''Calendar API unavailable'')
   \<and> fst (post_stripe_webhook calendar_down_env ''checkout.session.completed'' (Some ''good'') example_world)
       = Inl (Error ''Calendar API unavailable'')
   \<and> map_of (reservations (snd (post_stripe_webhook calendar_down_env ''checkout.session.completed''
         (Some ''good'') example_world))) ''res1''
       = Some (example_reservation\<lparr>status := ''paid'', stripeSessionId := Some ''cs_test_1''\<rparr>)
   \<and> trace (snd (post_stripe_webhook calendar_down_env ''checkout.session.completed''
         (Some ''good'') example_world))
       = [ReservationFindByIdAndUpdate (Some ''res1'')
            \<lparr>set_status = Some ''paid'', set_stripeSessionId = Some ''cs_test_1'',
             set_meetingLink = None\<rparr>,
          SlotFindByIdAndUpdate (Some ''slot3'')
            \<lparr>set_slot_serviceId = None, set_start = None, set_slot_end = None,
             set_slot_status = Some ''booked''\<rparr>,
          SlotFindById (Some ''slot3''),
          ServiceFindById (Some ''svc1''),
          CalendarEventsInsert
            \<lparr>ev_summary = ''Reserva: Mentoria'', ev_start = 1704099600000,
             ev_end = 1704103200000, ev_requestId = 1704050000000,
             ev_attendees = [''ana@example.com'', ''mentor@example.com'']\<rparr>]"
  by (simp add: calendar_down_env_def example_defs handler_defs io_defs db_defs Let_def)

section \<open>Creating a reservation\<close>

text \<open>
  Claim C3. When the six customer fields are present, the service exists and the slot
  exists with status \<open>free\<close>, \<open>POST /api/reservations\<close> first sets the slot to \<open>booked\<close>,
  then creates a \<open>pending\<close> reservation of that service and slot, then requests a checkout
  session whose metadata carries the id of the new reservation and the id of the slot, and
  answers with the checkout URL of the session that the payment gateway returned.
\<close>

theorem post_reservations_books_and_checks_out:
  assumes fields: "\<not> falsy (rb_serviceId b)" "\<not> falsy (rb_slotId b)"
      "\<not> falsy (rb_customerEmail b)" "\<not> falsy (rb_firstName b)"
      "\<not> falsy (rb_lastName b)" "\<not> falsy (rb_phone b)"
    and svc: "find_by_id (rb_serviceId b) (services w) = Some sv"
    and slot: "find_by_id (rb_slotId b) (slots w) = Some sl"
    and free: "slot_status sl = ''free''"
    and db: "\<forall>c. db_fails e c = None"
    and rid: "rid = ObjectId e (id_counter w)"
    and rq: "rq = checkout_request_for e (value_of (rb_customerEmail b)) sv rid (value_of (rb_slotId b))"
    and session: "sessions_create e rq = Inr session"
  shows "case post_reservations e b w of
           (res, w') \<Rightarrow>
             res = Inr (json (CheckoutUrlJson (url session)))
             \<and> slots w' =
                 update_by_id (value_of (rb_slotId b)) (\<lambda>s. s\<lparr>slot_status := ''booked''\<rparr>) (slots w)
             \<and> map_of (slots w') (value_of (rb_slotId b)) = Some (sl\<lparr>slot_status := ''booked''\<rparr>)
             \<and> reservations w' = reservations w @ [(rid, new_reservation e b)]
             \<and> status (new_reservation e b) = ''pending''
             \<and> serviceId (new_reservation e b) = value_of (rb_serviceId b)
             \<and> slotId (new_reservation e b) = value_of (rb_slotId b)
             \<and> request_metadata rq =
                 \<lparr>md_reservationId = Some rid, md_slotId = Some (value_of (rb_slotId b))\<rparr>
             \<and> trace w' =
                 trace w @
                 [ServiceFindById (rb_serviceId b),
                  SlotFindById (rb_slotId b),
                  SlotFindByIdAndUpdate (rb_slotId b)
                    \<lparr>set_slot_serviceId = None, set_start = None, set_slot_end = None,
                     set_slot_status = Some ''booked''\<rparr>,
                  ReservationCreate rid (new_reservation e b),
                  CheckoutSessionsCreate rq]"
proof -
  obtain k where k: "rb_slotId b = Some k"
    using fields(2) by (cases "rb_slotId b") (simp_all add: falsy_def)
  obtain j where j: "rb_serviceId b = Some j"
    using fields(1) by (cases "rb_serviceId b") (simp_all add: falsy_def)
  have upd: "apply_slot_update \<lparr>set_slot_serviceId = None, set_start = None, set_slot_end = None,
               set_slot_status = Some ''booked''\<rparr> = (\<lambda>s. s\<lparr>slot_status := ''booked''\<rparr>)"
    by (rule ext) (simp add: apply_slot_update_def)
  have vk: "value_of (Some k) = k" and vj: "value_of (Some j) = j"
    by (simp_all add: value_of_def)
  have md: "request_metadata rq = \<lparr>md_reservationId = Some rid, md_slotId = Some k\<rparr>"
    using rq k by (simp add: checkout_request_for_def vk)
  have nr: "status (new_reservation e b) = ''pending''"
    "serviceId (new_reservation e b) = j" "slotId (new_reservation e b) = k"
    using k j by (simp_all add: new_reservation_def vk vj)
  have run: "post_reservations e b w =
      (Inr (json (CheckoutUrlJson (url session))),
       w\<lparr>trace := trace w @
                 [ServiceFindById (rb_serviceId b),
                  SlotFindById (rb_slotId b),
                  SlotFindByIdAndUpdate (rb_slotId b)
                    \<lparr>set_slot_serviceId = None, set_start = None, set_slot_end = None,
                     set_slot_status = Some ''booked''\<rparr>,
                  ReservationCreate rid (new_reservation e b),
                  CheckoutSessionsCreate rq],
         slots := update_by_id k (\<lambda>s. s\<lparr>slot_status := ''booked''\<rparr>) (slots w),
         reservations := reservations w @ [(rid, new_reservation e b)],
         id_counter := Suc (id_counter w)\<rparr>)"
    using svc slot free db rid[symmetric] rq[symmetric] session k j fields
    by (simp add: post_reservations_def post_reservations_try_def promise_all2_def
        checkout_sessions_create_def io_defs db_defs find_by_id_def vk vj upd)
  show ?thesis
    using slot k j by (simp add: run md nr vk vj map_of_update_by_id find_by_id_def)
qed

theorem post_reservations_books_and_checks_out_witness:
  "find_by_id (rb_slotId example_reservation_body) (slots example_world)
     = Some \<lparr>slot_serviceId = None, start = 1704103200000, slot_end = None, slot_status = ''free''\<rparr>
   \<and> (case post_reservations example_env example_reservation_body example_world of
        (res, w') \<Rightarrow>
          res = Inr (json (CheckoutUrlJson (Some ''https://checkout.example/cs_test_2'')))
          \<and> map_of (slots w') ''slot1''
              = Some \<lparr>slot_serviceId = None, start = 1704103200000, slot_end = None,
                      slot_status = ''booked''\<rparr>
          \<and> reservations w'
              = reservations example_world @ [(''new'', new_reservation example_env example_reservation_body)]
          \<and> status (new_reservation example_env example_reservation_body) = ''pending'')
   \<and> unit_amount (checkout_request_for example_env ''luis@example.com'' example_service
          ''new'' ''slot1'') = Finite 12000"
proof -
  have amount: "unit_amount (checkout_request_for example_env ''luis@example.com'' example_service
          ''new'' ''slot1'') = Finite 12000"
    by (simp add: checkout_request_for_def Math_round_def example_env_def example_service_def
        floor_eq_iff)
  have fields:
    "\<not> falsy (rb_serviceId example_reservation_body)" "\<not> falsy (rb_slotId example_reservation_body)"
    "\<not> falsy (rb_customerEmail example_reservation_body)" "\<not> falsy (rb_firstName example_reservation_body)"
    "\<not> falsy (rb_lastName example_reservation_body)" "\<not> falsy (rb_phone example_reservation_body)"
    by (simp_all add: example_reservation_body_def falsy_def)
  have svc: "find_by_id (rb_serviceId example_reservation_body) (services example_world) = Some example_service"
    by (simp add: example_reservation_body_def example_world_def find_by_id_def)
  have slot: "find_by_id (rb_slotId example_reservation_body) (slots example_world)
     = Some \<lparr>slot_serviceId = None, start = 1704103200000, slot_end = None, slot_status = ''free''\<rparr>"
    by (simp add: example_reservation_body_def example_world_def find_by_id_def)
  have free: "slot_status \<lparr>slot_serviceId = None, start = 1704103200000, slot_end = None,
      slot_status = ''free''\<rparr> = ''free''"
    by simp
  have db: "\<forall>c. db_fails example_env c = None"
    by (simp add: example_env_def)
  have rid: "''new'' = ObjectId example_env (id_counter example_world)"
    by (simp add: example_env_def example_world_def)
  have session: "sessions_create example_env rq =
      Inr \<lparr>session_id = ''cs_test_2'', url = Some ''https://checkout.example/cs_test_2'',
           payment_status = ''unpaid'', metadata = request_metadata rq\<rparr>" for rq
    by (simp add: example_env_def)
  have k: "value_of (rb_slotId example_reservation_body) = ''slot1''"
    by (simp add: example_reservation_body_def value_of_def)
  have m: "map_of (slots example_world) ''slot1''
     = Some \<lparr>slot_serviceId = None, start = 1704103200000, slot_end = None, slot_status = ''free''\<rparr>"
    by (simp add: example_world_def)
  show ?thesis
    using post_reservations_books_and_checks_out [OF fields svc slot free db rid refl session]
    by (simp add: slot k m amount map_of_update_by_id split: prod.splits)
qed

lemma post_reservations_missing:
  assumes "falsy (rb_serviceId b) \<or> falsy (rb_slotId b) \<or> falsy (rb_customerEmail b)
           \<or> falsy (rb_firstName b) \<or> falsy (rb_lastName b) \<or> falsy (rb_phone b)"
  shows "post_reservations e b w = (Inr (json_error 400 ''Faltan campos obligatorios.''), w)"
  using assms by (simp add: post_reservations_def post_reservations_try_def io_defs)

lemma post_reservations_unavailable:
  assumes present: "\<not> (falsy (rb_serviceId b) \<or> falsy (rb_slotId b) \<or> falsy (rb_customerEmail b)
           \<or> falsy (rb_firstName b) \<or> falsy (rb_lastName b) \<or> falsy (rb_phone b))"
    and db: "db_fails e (ServiceFindById (rb_serviceId b)) = None"
      "db_fails e (SlotFindById (rb_slotId b)) = None"
    and unavailable: "find_by_id (rb_serviceId b) (services w) = None
        \<or> (case find_by_id (rb_slotId b) (slots w) of
              None \<Rightarrow> True
            | Some sl \<Rightarrow> slot_status sl \<noteq> ''free'')"
  shows "post_reservations e b w =
           (Inr (json_error 400 ''Servicio o slot no disponible.''),
            w\<lparr>trace := trace w @ [ServiceFindById (rb_serviceId b), SlotFindById (rb_slotId b)]\<rparr>)"
proof -
  have found: "promise_all2 (Service_findById e (rb_serviceId b)) (Slot_findById e (rb_slotId b)) w =
      (Inr (find_by_id (rb_serviceId b) (services w), find_by_id (rb_slotId b) (slots w)),
       w\<lparr>trace := trace w @ [ServiceFindById (rb_serviceId b), SlotFindById (rb_slotId b)]\<rparr>)"
    using db by (simp add: promise_all2_def Service_findById_def Slot_findById_def io_defs)
  show ?thesis
  proof (cases "find_by_id (rb_serviceId b) (services w)")
    case None
    then show ?thesis
      using present
      by (simp add: post_reservations_def post_reservations_try_def found await_def try_catch_def ret_def)
  next
    case (Some sv)
    then have "case find_by_id (rb_slotId b) (slots w) of None \<Rightarrow> True | Some sl \<Rightarrow> slot_status sl \<noteq> ''free''"
      using unavailable by simp
    then show ?thesis
      using present Some
      by (cases "find_by_id (rb_slotId b) (slots w)")
        (simp_all add: post_reservations_def post_reservations_try_def found await_def
          try_catch_def ret_def)
  qed
qed

text \<open>
  When a required field is missing, or the two lookups are answered by the database and
  the service does not exist, or the slot does not exist or is not \<open>free\<close>, the handler
  answers 400 with a message, changes no slot and creates no reservation.
\<close>

lemma post_reservations_rejects_when_lookups_answer:
  assumes "falsy (rb_serviceId b) \<or> falsy (rb_slotId b) \<or> falsy (rb_customerEmail b)
           \<or> falsy (rb_firstName b) \<or> falsy (rb_lastName b) \<or> falsy (rb_phone b)
           \<or> (db_fails e (ServiceFindById (rb_serviceId b)) = None
               \<and> db_fails e (SlotFindById (rb_slotId b)) = None
               \<and> (find_by_id (rb_serviceId b) (services w) = None
                    \<or> (case find_by_id (rb_slotId b) (slots w) of
                          None \<Rightarrow> True
                        | Some sl \<Rightarrow> slot_status sl \<noteq> ''free'')))"
  shows "case post_reservations e b w of
           (res, w') \<Rightarrow>
             (res = Inr (json_error 400 ''Faltan campos obligatorios.'')
              \<or> res = Inr (json_error 400 ''Servicio o slot no disponible.''))
             \<and> slots w' = slots w \<and> reservations w' = reservations w \<and> services w' = services w"
proof (cases "falsy (rb_serviceId b) \<or> falsy (rb_slotId b) \<or> falsy (rb_customerEmail b)
           \<or> falsy (rb_firstName b) \<or> falsy (rb_lastName b) \<or> falsy (rb_phone b)")
  case True
  then show ?thesis by (simp add: post_reservations_missing)
next
  case False
  with assms have "db_fails e (ServiceFindById (rb_serviceId b)) = None"
    "db_fails e (SlotFindById (rb_slotId b)) = None"
    "find_by_id (rb_serviceId b) (services w) = None
        \<or> (case find_by_id (rb_slotId b) (slots w) of
              None \<Rightarrow> True
            | Some sl \<Rightarrow> slot_status sl \<noteq> ''free'')"
    by blast+
  with False show ?thesis by (simp add: post_reservations_unavailable)
qed

text \<open>
  Claim C4, at a request the code fails on. The \<open>serviceId\<close> of the request is not the
  string of an ObjectId, so no service with that id exists. \<open>Service.findById\<close> rejects
  with a CastError, the \<open>catch\<close> of the handler answers 500 \<open>Error interno.\<close> where the
  claim says 400; no slot is changed and no reservation is created.
\<close>

theorem post_reservations_malformed_id_is_500:
  "map_of (services example_world) ''not-an-object-id'' = None
   \<and> db_fails cast_error_env (ServiceFindById (Some ''not-an-object-id''))
       = Some (Error ''CastError: Cast to ObjectId failed'')
   \<and> fst (post_reservations cast_error_env
             (example_reservation_body\<lparr>rb_serviceId := Some ''not-an-object-id''\<rparr>) example_world)
       = Inr \<lparr>status_code = 500, body = ErrorJson ''Error interno.''\<rparr>
   \<and> slots (snd (post_reservations cast_error_env
             (example_reservation_body\<lparr>rb_serviceId := Some ''not-an-object-id''\<rparr>) example_world))
       = slots example_world
   \<and> reservations (snd (post_reservations cast_error_env
             (example_reservation_body\<lparr>rb_serviceId := Some ''not-an-object-id''\<rparr>) example_world))
       = reservations example_world
   \<and> trace (snd (post_reservations cast_error_env
             (example_reservation_body\<lparr>rb_serviceId := Some ''not-an-object-id''\<rparr>) example_world))
       = [ServiceFindById (Some ''not-an-object-id''), SlotFindById (Some ''slot1''),
          ConsoleError ''CastError: Cast to ObjectId failed'']"
  by (simp add: post_reservations_def post_reservations_try_def promise_all2_def
      Service_findById_def Slot_findById_def io_defs falsy_def message_def json_error_def
      find_by_id_def cast_error_env_def example_env_def example_reservation_body_def
      example_world_def example_service_def)


section \<open>Creating a slot\<close>

lemma post_admin_slots_missing_start:
  "falsy (sb_start b) \<Longrightarrow> post_admin_slots e b w = (Inr (json_error 400 ''Falta start.''), w)"
  by (simp add: post_admin_slots_def post_admin_slots_try_def io_defs)

lemma post_admin_slots_with_start:
  assumes "\<not> falsy (sb_start b)"
  shows "post_admin_slots e b w =
     (case parseDate e (value_of (sb_start b)) of
        None \<Rightarrow> (Inr (json_error 400 ''Invalid slot data.''),
                 w\<lparr>trace := trace w @ [ConsoleError ''ValidationError'']\<rparr>)
      | Some d \<Rightarrow>
          (let new = (ObjectId e (id_counter w),
                      \<lparr>slot_serviceId = None, start = d, slot_end = None, slot_status = ''free''\<rparr>)
           in case db_fails e (SlotCreate (fst new) (snd new)) of
                Some err \<Rightarrow> (Inr (json_error 400 ''Invalid slot data.''),
                  w\<lparr>trace := trace w @ [SlotCreate (fst new) (snd new), ConsoleError (message err)]\<rparr>)
              | None \<Rightarrow> (Inr \<lparr>status_code = 201, body = SlotJson (Some new)\<rparr>,
                  w\<lparr>trace := trace w @ [SlotCreate (fst new) (snd new)],
                    slots := slots w @ [new], id_counter := Suc (id_counter w)\<rparr>)))"
  using assms
  by (simp add: post_admin_slots_def post_admin_slots_try_def io_defs Slot_create_def message_def
      Let_def split: option.splits)

text \<open>
  Claim C9. \<open>POST /api/admin/slots\<close> without \<open>start\<close> answers 400 and leaves the world as
  it was. With a \<open>start\<close> that is a date, the database accepting the document, it answers
  201 and appends exactly one slot, whose status is \<open>free\<close> and which has neither a
  service nor an end; with a \<open>start\<close> that is no date, or the database refusing, it
  answers 400 and stores nothing. The \<open>end\<close>, \<open>status\<close> and \<open>serviceId\<close> of the body have
  no influence on what the handler does.
\<close>

theorem post_admin_slots_creates_free_slot:
  "(falsy (sb_start b) \<longrightarrow> post_admin_slots e b w = (Inr (json_error 400 ''Falta start.''), w))
   \<and> (\<not> falsy (sb_start b) \<and> parseDate e (value_of (sb_start b)) = Some d
        \<and> db_fails e (SlotCreate (ObjectId e (id_counter w))
              \<lparr>slot_serviceId = None, start = d, slot_end = None, slot_status = ''free''\<rparr>) = None
        \<longrightarrow>
        post_admin_slots e b w =
          (Inr \<lparr>status_code = 201,
                body = SlotJson (Some (ObjectId e (id_counter w),
                  \<lparr>slot_serviceId = None, start = d, slot_end = None, slot_status = ''free''\<rparr>))\<rparr>,
           w\<lparr>trace := trace w @ [SlotCreate (ObjectId e (id_counter w))
                  \<lparr>slot_serviceId = None, start = d, slot_end = None, slot_status = ''free''\<rparr>],
             slots := slots w @ [(ObjectId e (id_counter w),
                  \<lparr>slot_serviceId = None, start = d, slot_end = None, slot_status = ''free''\<rparr>)],
             id_counter := Suc (id_counter w)\<rparr>))
   \<and> (\<not> falsy (sb_start b)
        \<and> (parseDate e (value_of (sb_start b)) = None
             \<or> parseDate e (value_of (sb_start b)) = Some d
                \<and> db_fails e (SlotCreate (ObjectId e (id_counter w))
                     \<lparr>slot_serviceId = None, start = d, slot_end = None, slot_status = ''free''\<rparr>)
                   = Some err)
        \<longrightarrow>
        fst (post_admin_slots e b w) = Inr (json_error 400 ''Invalid slot data.'')
        \<and> slots (snd (post_admin_slots e b w)) = slots w
        \<and> reservations (snd (post_admin_slots e b w)) = reservations w
        \<and> services (snd (post_admin_slots e b w)) = services w)
   \<and> post_admin_slots e (b\<lparr>sb_end := x, sb_status := y, sb_serviceId := z\<rparr>) w
       = post_admin_slots e b w"
proof (intro conjI impI)
  show "post_admin_slots e (b\<lparr>sb_end := x, sb_status := y, sb_serviceId := z\<rparr>) w
       = post_admin_slots e b w"
    by (simp add: post_admin_slots_def post_admin_slots_try_def)
next
  assume "falsy (sb_start b)"
  then show "post_admin_slots e b w = (Inr (json_error 400 ''Falta start.''), w)"
    by (rule post_admin_slots_missing_start)
next
  assume "\<not> falsy (sb_start b) \<and> parseDate e (value_of (sb_start b)) = Some d
        \<and> db_fails e (SlotCreate (ObjectId e (id_counter w))
              \<lparr>slot_serviceId = None, start = d, slot_end = None, slot_status = ''free''\<rparr>) = None"
  then show "post_admin_slots e b w =
          (Inr \<lparr>status_code = 201,
                body = SlotJson (Some (ObjectId e (id_counter w),
                  \<lparr>slot_serviceId = None, start = d, slot_end = None, slot_status = ''free''\<rparr>))\<rparr>,
           w\<lparr>trace := trace w @ [SlotCreate (ObjectId e (id_counter w))
                  \<lparr>slot_serviceId = None, start = d, slot_end = None, slot_status = ''free''\<rparr>],
             slots := slots w @ [(ObjectId e (id_counter w),
                  \<lparr>slot_serviceId = None, start = d, slot_end = None, slot_status = ''free''\<rparr>)],
             id_counter := Suc (id_counter w)\<rparr>)"
    by (simp add: post_admin_slots_with_start Let_def)
next
  assume a: "\<not> falsy (sb_start b)
        \<and> (parseDate e (value_of (sb_start b)) = None
             \<or> parseDate e (value_of (sb_start b)) = Some d
                \<and> db_fails e (SlotCreate (ObjectId e (id_counter w))
                     \<lparr>slot_serviceId = None, start = d, slot_end = None, slot_status = ''free''\<rparr>)
                   = Some err)"
  then have "post_admin_slots e b w =
      (Inr (json_error 400 ''Invalid slot data.''), snd (post_admin_slots e b w))
      \<and> slots (snd (post_admin_slots e b w)) = slots w
      \<and> reservations (snd (post_admin_slots e b w)) = reservations w
      \<and> services (snd (post_admin_slots e b w)) = services w"
    by (auto simp add: post_admin_slots_with_start Let_def)
  then show "fst (post_admin_slots e b w) = Inr (json_error 400 ''Invalid slot data.'')"
    "slots (snd (post_admin_slots e b w)) = slots w"
    "reservations (snd (post_admin_slots e b w)) = reservations w"
    "services (snd (post_admin_slots e b w)) = services w"
    by (metis fst_conv, simp_all)
qed

theorem post_admin_slots_creates_free_slot_witness:
  "\<not> falsy (sb_start \<lparr>sb_start = Some ''2024-01-02T10:00:00Z'', sb_end = Some ''2024-01-02T11:00:00Z'',
                       sb_status = Some ''booked'', sb_serviceId = Some ''svc1''\<rparr>)
   \<and> parseDate example_env ''2024-01-02T10:00:00Z'' = Some 1704189600000
   \<and> fst (post_admin_slots example_env
             \<lparr>sb_start = Some ''2024-01-02T10:00:00Z'', sb_end = Some ''2024-01-02T11:00:00Z'',
              sb_status = Some ''booked'', sb_serviceId = Some ''svc1''\<rparr> example_world)
       = Inr \<lparr>status_code = 201,
              body = SlotJson (Some (''new'',
                \<lparr>slot_serviceId = None, start = 1704189600000, slot_end = None,
                 slot_status = ''free''\<rparr>))\<rparr>
   \<and> slots (snd (post_admin_slots example_env
             \<lparr>sb_start = Some ''2024-01-02T10:00:00Z'', sb_end = Some ''2024-01-02T11:00:00Z'',
              sb_status = Some ''booked'', sb_serviceId = Some ''svc1''\<rparr> example_world))
       = slots example_world @ [(''new'',
                \<lparr>slot_serviceId = None, start = 1704189600000, slot_end = None,
                 slot_status = ''free''\<rparr>)]
   \<and> falsy (sb_start \<lparr>sb_start = None, sb_end = None, sb_status = Some ''booked'', sb_serviceId = None\<rparr>)
   \<and> post_admin_slots example_env
        \<lparr>sb_start = None, sb_end = None, sb_status = Some ''booked'', sb_serviceId = None\<rparr> example_world
       = (Inr (json_error 400 ''Falta start.''), example_world)"
proof -
  have present: "\<not> falsy (sb_start \<lparr>sb_start = Some ''2024-01-02T10:00:00Z'',
      sb_end = Some ''2024-01-02T11:00:00Z'', sb_status = Some ''booked'', sb_serviceId = Some ''svc1''\<rparr>)"
    by (simp add: falsy_def)
  have parsed: "parseDate example_env (value_of (sb_start \<lparr>sb_start = Some ''2024-01-02T10:00:00Z'',
      sb_end = Some ''2024-01-02T11:00:00Z'', sb_status = Some ''booked'', sb_serviceId = Some ''svc1''\<rparr>))
      = Some 1704189600000"
    by (simp add: value_of_def example_env_def)
  have db: "db_fails example_env c = None" for c
    by (simp add: example_env_def)
  have oid: "ObjectId example_env (id_counter example_world) = ''new''"
    by (simp add: example_env_def example_world_def)
  have missing: "falsy (sb_start \<lparr>sb_start = None, sb_end = None, sb_status = Some ''booked'',
      sb_serviceId = None\<rparr>)"
    by (simp add: falsy_def)
  have p: "parseDate example_env ''2024-01-02T10:00:00Z'' = Some 1704189600000"
    by (simp add: example_env_def)
  show ?thesis
    using present parsed missing p
      post_admin_slots_creates_free_slot [where e = example_env and w = example_world
        and d = 1704189600000
        and b = "\<lparr>sb_start = Some ''2024-01-02T10:00:00Z'', sb_end = Some ''2024-01-02T11:00:00Z'',
                  sb_status = Some ''booked'', sb_serviceId = Some ''svc1''\<rparr>"]
      post_admin_slots_creates_free_slot [where e = example_env and w = example_world
        and b = "\<lparr>sb_start = None, sb_end = None, sb_status = Some ''booked'', sb_serviceId = None\<rparr>"]
    by (simp add: db oid)
qed


section \<open>The free slots of a day\<close>

lemma get_slots_result:
  assumes "\<not> falsy date"
    and "parseDate e (value_of date @ ''T00:00:00'') = Some a"
    and "parseDate e (value_of date @ ''T23:59:59'') = Some b"
    and "db_fails e (SlotFindFree a b) = None"
  shows "get_slots e date w =
           (Inr (json (SlotsJson
              (sort_key (\<lambda>ks. start (snd ks))
                 (filter (\<lambda>ks. a \<le> start (snd ks) \<and> start (snd ks) \<le> b
                               \<and> slot_status (snd ks) = ''free'') (slots w))))),
            w\<lparr>trace := trace w @ [SlotFindFree a b]\<rparr>)"
  using assms by (simp add: get_slots_def get_slots_try_def io_defs Slot_find_free_sorted_def)

lemma get_slots_sorted_within_bounds:
  assumes "\<not> falsy date"
    and "parseDate e (value_of date @ ''T00:00:00'') = Some a"
    and "parseDate e (value_of date @ ''T23:59:59'') = Some b"
    and "db_fails e (SlotFindFree a b) = None"
  shows "\<exists>xs. fst (get_slots e date w) = Inr (json (SlotsJson xs))
           \<and> sorted (map (\<lambda>ks. start (snd ks)) xs)
           \<and> set xs = {ks \<in> set (slots w). a \<le> start (snd ks) \<and> start (snd ks) \<le> b
                                            \<and> slot_status (snd ks) = ''free''}"
  by (auto simp add: get_slots_result [OF assms])

text \<open>
  Claim C5, at a request the code fails on. The slots returned are free, start between
  00:00:00 and 23:59:59 of the day, bounds included, and are sorted by their start (the two
  lemmas above). A free slot that starts in the last second of the day, after
  23:59:59.000, falls on that date and is not returned: here \<open>slot2\<close>, at 23:59:59.500 of
  2024-01-01.
\<close>

theorem get_slots_misses_last_second:
  "map_of (slots example_world) ''slot2''
     = Some \<lparr>slot_serviceId = None, start = 1704153599500, slot_end = None, slot_status = ''free''\<rparr>
   \<and> parseDate example_env (''2024-01-01'' @ ''T00:00:00'') = Some 1704067200000
   \<and> (1704067200000 :: int) \<le> 1704153599500
   \<and> (1704153599500 :: int) < 1704067200000 + 24 * 60 * 60 * 1000
   \<and> fst (get_slots example_env (Some ''2024-01-01'') example_world)
       = Inr (json (SlotsJson
           [(''slot1'', \<lparr>slot_serviceId = None, start = 1704103200000, slot_end = None,
                         slot_status = ''free''\<rparr>)]))"
  by (simp add: get_slots_def get_slots_try_def falsy_def value_of_def example_defs io_defs db_defs
      json_def)


section \<open>A booked slot stays booked\<close>

named_theorems keeps

lemma keeps_ret [keeps]: "keeps_booked i (ret x)"
  by (simp add: keeps_booked_def ret_def)

lemma keeps_throw [keeps]: "keeps_booked i (throw err)"
  by (simp add: keeps_booked_def throw_def)

lemma keeps_await [keeps]:
  assumes "keeps_booked i m" and "\<And>x. keeps_booked i (f x)"
  shows "keeps_booked i (await m f)"
  unfolding keeps_booked_def
proof (intro allI impI)
  fix w assume b: "booked_at i w"
  obtain r w1 where mw: "m w = (r, w1)" by (cases "m w")
  with assms(1) b have b1: "booked_at i w1"
    by (auto simp: keeps_booked_def)
  show "booked_at i (snd (await m f w))"
  proof (cases r)
    case (Inl err)
    with mw b1 show ?thesis by (simp add: await_def)
  next
    case (Inr x)
    with mw b1 assms(2) [of x] show ?thesis by (simp add: await_def keeps_booked_def)
  qed
qed

lemma keeps_try_catch [keeps]:
  assumes "keeps_booked i m" and "\<And>err. keeps_booked i (h err)"
  shows "keeps_booked i (try_catch m h)"
  unfolding keeps_booked_def
proof (intro allI impI)
  fix w assume b: "booked_at i w"
  obtain r w1 where mw: "m w = (r, w1)" by (cases "m w")
  with assms(1) b have b1: "booked_at i w1"
    by (auto simp: keeps_booked_def)
  show "booked_at i (snd (try_catch m h w))"
  proof (cases r)
    case (Inl err)
    with mw b1 assms(2) [of err] show ?thesis by (simp add: try_catch_def keeps_booked_def)
  next
    case (Inr x)
    with mw b1 show ?thesis by (simp add: try_catch_def)
  qed
qed

lemma keeps_promise_all2 [keeps]:
  assumes "keeps_booked i m1" and "keeps_booked i m2"
  shows "keeps_booked i (promise_all2 m1 m2)"
  unfolding keeps_booked_def
proof (intro allI impI)
  fix w assume b: "booked_at i w"
  obtain r1 w1 where m1: "m1 w = (r1, w1)" by (cases "m1 w")
  obtain r2 w2 where m2: "m2 w1 = (r2, w2)" by (cases "m2 w1")
  from assms(1) b m1 have "booked_at i w1" by (auto simp: keeps_booked_def)
  with assms(2) m2 have "booked_at i w2" by (auto simp: keeps_booked_def)
  with m1 m2 show "booked_at i (snd (promise_all2 m1 m2 w))"
    by (simp add: promise_all2_def split: sum.splits)
qed

lemma keeps_emit [keeps]: "keeps_booked i (emit c)"
  by (simp add: keeps_booked_def emit_def booked_at_def)

lemma keeps_console_error [keeps]: "keeps_booked i (console_error msg)"
  by (simp add: console_error_def keeps_emit)

lemma keeps_db_call [keeps]: "keeps_booked i run \<Longrightarrow> keeps_booked i (db_call e c run)"
  unfolding db_call_def by (intro keeps_await keeps_emit) (simp add: keeps_throw split: option.splits)

lemma keeps_if [keeps]:
  "(c \<Longrightarrow> keeps_booked i a) \<Longrightarrow> (\<not> c \<Longrightarrow> keeps_booked i b) \<Longrightarrow> keeps_booked i (if c then a else b)"
  by simp

lemma keeps_case_option [keeps]:
  "keeps_booked i a \<Longrightarrow> (\<And>y. keeps_booked i (b y)) \<Longrightarrow>
   keeps_booked i (case x of None \<Rightarrow> a | Some y \<Rightarrow> b y)"
  by (cases x) simp_all

lemma keeps_case_sum [keeps]:
  "(\<And>y. keeps_booked i (a y)) \<Longrightarrow> (\<And>y. keeps_booked i (b y)) \<Longrightarrow>
   keeps_booked i (case x of Inl y \<Rightarrow> a y | Inr y \<Rightarrow> b y)"
  by (cases x) simp_all

lemma keeps_case_exn [keeps]:
  "(\<And>y. keeps_booked i (a y)) \<Longrightarrow> keeps_booked i (case x of Error y \<Rightarrow> a y)"
  by (cases x) simp_all

lemma keeps_read:
  "(\<And>w. slots (g w) = slots w) \<Longrightarrow> keeps_booked i (\<lambda>w. (r w, g w))"
  by (simp add: keeps_booked_def booked_at_def)

lemma booked_at_update:
  assumes "booked_at i w" and "set_slot_status u = Some ''booked''"
  shows "booked_at i (w\<lparr>slots := update_by_id k (apply_slot_update u) (slots w)\<rparr>)"
  using assms
  by (auto simp add: booked_at_def map_of_update_by_id apply_slot_update_def split: option.splits)

lemma keeps_Slot_findByIdAndUpdate [keeps]:
  assumes "set_slot_status u = Some ''booked''"
  shows "keeps_booked i (Slot_findByIdAndUpdate e k u)"
  unfolding Slot_findByIdAndUpdate_def
proof (rule keeps_db_call)
  show "keeps_booked i (\<lambda>w. case k of
              None \<Rightarrow> (Inr None, w)
            | Some k \<Rightarrow>
                (case map_of (slots w) k of
                   None \<Rightarrow> (Inr None, w)
                 | Some s \<Rightarrow>
                     (Inr (Some (apply_slot_update u s)),
                      w\<lparr>slots := update_by_id k (apply_slot_update u) (slots w)\<rparr>)))"
    unfolding keeps_booked_def
    using assms by (auto simp add: booked_at_update split: option.splits)
qed

lemma keeps_Reservation_findByIdAndUpdate [keeps]:
  "keeps_booked i (Reservation_findByIdAndUpdate e k u)"
  unfolding Reservation_findByIdAndUpdate_def
  by (rule keeps_db_call) (auto simp add: keeps_booked_def booked_at_def split: option.splits)

lemma keeps_Slot_findById [keeps]: "keeps_booked i (Slot_findById e k)"
  unfolding Slot_findById_def by (rule keeps_db_call) (simp add: keeps_booked_def)

lemma keeps_Service_findById [keeps]: "keeps_booked i (Service_findById e k)"
  unfolding Service_findById_def by (rule keeps_db_call) (simp add: keeps_booked_def)

lemma keeps_Reservation_findById_populate [keeps]:
  "keeps_booked i (Reservation_findById_populate e k)"
  unfolding Reservation_findById_populate_def by (rule keeps_db_call) (simp add: keeps_booked_def)

lemma keeps_Slot_find_free_sorted [keeps]: "keeps_booked i (Slot_find_free_sorted e a b)"
  unfolding Slot_find_free_sorted_def by (rule keeps_db_call) (simp add: keeps_booked_def)

lemma keeps_Slot_aggregate [keeps]: "keeps_booked i (Slot_aggregate e)"
  unfolding Slot_aggregate_def by (rule keeps_db_call) (simp add: keeps_booked_def)

lemma keeps_Reservation_create [keeps]: "keeps_booked i (Reservation_create e r)"
  unfolding keeps_booked_def
  by (simp add: Reservation_create_def io_defs booked_at_def split: option.splits)

lemma keeps_createGoogleMeet [keeps]:
  "keeps_booked i (createGoogleMeet e startDate durationMinutes summary attendees)"
  unfolding createGoogleMeet_def Let_def by (intro keeps)

lemma keeps_sendMail [keeps]: "keeps_booked i (sendMail e m)"
  unfolding sendMail_def by (intro keeps)

lemma keeps_checkout_sessions_create [keeps]: "keeps_booked i (checkout_sessions_create e rq)"
  unfolding checkout_sessions_create_def by (intro keeps)

lemma keeps_checkout_session_completed [keeps]:
  "keeps_booked i (checkout_session_completed e session)"
  unfolding checkout_session_completed_def Let_def by (intro keeps) simp

lemma keeps_post_stripe_webhook: "keeps_booked i (post_stripe_webhook e raw_body sig)"
  unfolding post_stripe_webhook_def by (intro keeps)

lemma keeps_post_stripe_verify: "keeps_booked i (post_stripe_verify e sessionId)"
  unfolding post_stripe_verify_def post_stripe_verify_try_def by (intro keeps)

lemma keeps_post_login: "keeps_booked i (post_login e username password)"
  unfolding post_login_def post_login_handler_def by (intro keeps)

lemma keeps_get_slots_summary: "keeps_booked i (get_slots_summary e)"
  unfolding get_slots_summary_def get_slots_summary_try_def by (intro keeps)

lemma keeps_get_slots: "keeps_booked i (get_slots e date)"
  unfolding get_slots_def get_slots_try_def by (intro keeps)

lemma keeps_post_reservations: "keeps_booked i (post_reservations e b)"
  unfolding post_reservations_def post_reservations_try_def by (intro keeps) simp

text \<open>
  Claim C7. No route outside \<open>/api/admin\<close> (the webhook, the payment verification, the
  login, the two public slot queries, the creation of a reservation) changes the status
  of a booked slot: a slot that is stored with status \<open>booked\<close> before the request is
  stored with status \<open>booked\<close> after it, whatever the request and whatever the
  collaborators answer.
\<close>

theorem booked_slot_stays_booked:
  assumes "\<not> is_admin_route rq" and "booked_at i w"
  shows "booked_at i (snd (app e rq w))"
proof -
  have "keeps_booked i (app e rq)"
    using assms(1)
    by (cases rq)
      (simp_all add: keeps_post_stripe_webhook keeps_post_stripe_verify keeps_post_login
        keeps_get_slots_summary keeps_get_slots keeps_post_reservations)
  with assms(2) show ?thesis
    by (simp add: keeps_booked_def)
qed

theorem booked_slot_stays_booked_witness:
  "\<not> is_admin_route (PostStripeWebhook ''checkout.session.completed'' (Some ''good''))
   \<and> booked_at ''slot3'' example_world
   \<and> booked_at ''slot3''
        (snd (app example_env (PostStripeWebhook ''checkout.session.completed'' (Some ''good''))
                example_world))
   \<and> booked_at ''slot3''
        (snd (app example_env (PostReservations (example_reservation_body\<lparr>rb_slotId := Some ''slot3''\<rparr>))
                example_world))"
proof -
  have b: "booked_at ''slot3'' example_world"
    by (simp add: booked_at_def example_world_def example_slot3_def)
  show ?thesis
    using b booked_slot_stays_booked [where e = example_env and i = "''slot3''" and w = example_world
        and rq = "PostStripeWebhook ''checkout.session.completed'' (Some ''good'')"]
      booked_slot_stays_booked [where e = example_env and i = "''slot3''" and w = example_world
        and rq = "PostReservations (example_reservation_body\<lparr>rb_slotId := Some ''slot3''\<rparr>)"]
    by simp
qed


section \<open>The status of a failed request\<close>







end
